theory Spec2Isabelle
  imports Complex_Main
begin

section \<open>The store: tables of supabase_setup.sql\<close>

text \<open>
  The game keeps all shared state in five tables of a remote relational store. A table is
  modelled as the list of its rows in insertion order. Keys are produced by
  \<^verbatim>\<open>uuid_generate_v4()\<close>; they are opaque, so a key is a natural number drawn
  from a counter of the store. \<^verbatim>\<open>NOW()\<close> is the store's clock; every
  mutating statement reads it and the clock then moves on, so two statements never see
  the same time.
\<close>

type_synonym uuid = nat
type_synonym timestamp = nat

text \<open>
  A JavaScript string is a sequence of UTF-16 code units, and so is the text of a column.
  A code unit is a number below 65536; nothing here depends on the bound.
\<close>

type_synonym code_unit = nat
type_synonym js_string = "code_unit list"

datatype status = Waiting | Active | Ended

datatype prompt_type = Truth | Dare

record room =
  r_id :: uuid
  r_code :: js_string
  r_created_at :: timestamp
  r_status :: status

record player =
  pl_id :: uuid
  pl_nickname :: js_string
  pl_room_id :: uuid
  pl_is_host :: bool
  pl_turn_order :: int
  pl_created_at :: timestamp

record prompt =
  pr_id :: uuid
  pr_type :: prompt_type
  pr_content :: js_string
  pr_created_at :: timestamp

record game_state =
  gs_id :: uuid
  gs_room_id :: uuid
  gs_current_player_id :: uuid
  gs_current_prompt_id :: "uuid option"
  gs_status :: status
  gs_created_at :: timestamp
  gs_updated_at :: timestamp

record response =
  rs_id :: uuid
  rs_room_id :: uuid
  rs_player_id :: uuid
  rs_prompt_id :: uuid
  rs_response :: js_string
  rs_created_at :: timestamp

text \<open>
  The error object a store call returns: its \<^verbatim>\<open>code\<close> and its
  \<^verbatim>\<open>message\<close>.
\<close>

datatype pg_error = PgError string string

fun pg_code :: "pg_error \<Rightarrow> string" where
  "pg_code (PgError c m) = c"

fun pg_message :: "pg_error \<Rightarrow> string" where
  "pg_message (PgError c m) = m"

text \<open>
  \<open>fault\<close> is the failure of the store as a whole (network, policy): while it is
  set, every call is answered with that error and changes nothing. Foreign keys are not
  checked: the program deletes no row and passes only keys it has read from the store.
\<close>

record store =
  t_rooms :: "room list"
  t_players :: "player list"
  t_prompts :: "prompt list"
  t_game_state :: "game_state list"
  t_responses :: "response list"
  clock :: timestamp
  next_uuid :: uuid
  fault :: "pg_error option"

definition tick :: "store \<Rightarrow> store" where
  "tick s = s\<lparr>clock := Suc (clock s)\<rparr>"

text \<open>\<^verbatim>\<open>select\<close>: the rows, or the store's fault.\<close>

definition db_select :: "store \<Rightarrow> 'a list \<Rightarrow> pg_error + 'a list" where
  "db_select s rows = (case fault s of Some e \<Rightarrow> Inl e | None \<Rightarrow> Inr rows)"

text \<open>
  \<^verbatim>\<open>.single()\<close>: exactly one row, otherwise the error PGRST116, which
  the pages recognise by its code.
\<close>

definition PGRST116 :: pg_error where
  "PGRST116 = PgError ''PGRST116'' ''JSON object requested, multiple (or no) rows returned''"

fun single :: "pg_error + 'a list \<Rightarrow> pg_error + 'a" where
  "single (Inl e) = Inl e"
| "single (Inr [x]) = Inr x"
| "single (Inr xs) = Inl PGRST116"

text \<open>
  \<^verbatim>\<open>update game_state set ... where room_id = rid\<close>. The patch names the
  columns the client sends; the trigger \<^verbatim>\<open>update_game_state_updated_at\<close>
  sets \<open>updated_at\<close> on every row the statement touches.
\<close>

record gs_patch =
  p_current_player_id :: "uuid option"
  p_current_prompt_id :: "uuid option"

definition apply_gs_patch :: "gs_patch \<Rightarrow> timestamp \<Rightarrow> game_state \<Rightarrow> game_state" where
  "apply_gs_patch p now g =
     g\<lparr>gs_current_player_id :=
          (case p_current_player_id p of None \<Rightarrow> gs_current_player_id g | Some x \<Rightarrow> x),
       gs_current_prompt_id :=
          (case p_current_prompt_id p of None \<Rightarrow> gs_current_prompt_id g | Some x \<Rightarrow> Some x),
       gs_updated_at := now\<rparr>"

definition update_game_state :: "gs_patch \<Rightarrow> uuid \<Rightarrow> store \<Rightarrow> pg_error option \<times> store" where
  "update_game_state p rid s =
     (case fault s of
        Some e \<Rightarrow> (Some e, s)
      | None \<Rightarrow>
          (None,
           tick (s\<lparr>t_game_state :=
                    map (\<lambda>g. if gs_room_id g = rid then apply_gs_patch p (clock s) g else g)
                        (t_game_state s)\<rparr>)))"

text \<open>
  \<^verbatim>\<open>update rooms set status = ... where id = rid\<close>.
\<close>

definition update_room_status :: "status \<Rightarrow> uuid \<Rightarrow> store \<Rightarrow> pg_error option \<times> store" where
  "update_room_status st rid s =
     (case fault s of
        Some e \<Rightarrow> (Some e, s)
      | None \<Rightarrow>
          (None,
           tick (s\<lparr>t_rooms :=
                    map (\<lambda>r. if r_id r = rid then r\<lparr>r_status := st\<rparr> else r) (t_rooms s)\<rparr>)))"

text \<open>
  The inserts. Columns the client does not send take their defaults: a fresh key, the
  clock, status \<open>waiting\<close>. \<open>rooms.code\<close> is UNIQUE, so a second room with a
  code in use is refused with SQLSTATE 23505.
\<close>

definition unique_violation :: pg_error where
  "unique_violation = PgError ''23505'' ''duplicate key value violates unique constraint''"

definition insert_room :: "js_string \<Rightarrow> store \<Rightarrow> (pg_error + room) \<times> store" where
  "insert_room code s =
     (case fault s of
        Some e \<Rightarrow> (Inl e, s)
      | None \<Rightarrow>
          if code \<in> set (map r_code (t_rooms s)) then (Inl unique_violation, s)
          else
            (let row = \<lparr>r_id = next_uuid s, r_code = code, r_created_at = clock s,
                        r_status = Waiting\<rparr>
             in (Inr row,
                 tick (s\<lparr>t_rooms := t_rooms s @ [row], next_uuid := Suc (next_uuid s)\<rparr>))))"

definition insert_player :: "js_string \<Rightarrow> uuid \<Rightarrow> bool \<Rightarrow> int \<Rightarrow> store \<Rightarrow> (pg_error + player) \<times> store" where
  "insert_player nick rid host ord s =
     (case fault s of
        Some e \<Rightarrow> (Inl e, s)
      | None \<Rightarrow>
          (let row = \<lparr>pl_id = next_uuid s, pl_nickname = nick, pl_room_id = rid,
                      pl_is_host = host, pl_turn_order = ord, pl_created_at = clock s\<rparr>
           in (Inr row,
               tick (s\<lparr>t_players := t_players s @ [row], next_uuid := Suc (next_uuid s)\<rparr>))))"

definition insert_game_state :: "uuid \<Rightarrow> uuid \<Rightarrow> uuid \<Rightarrow> status \<Rightarrow> store \<Rightarrow> pg_error option \<times> store" where
  "insert_game_state rid pid prid st s =
     (case fault s of
        Some e \<Rightarrow> (Some e, s)
      | None \<Rightarrow>
          (let row = \<lparr>gs_id = next_uuid s, gs_room_id = rid, gs_current_player_id = pid,
                      gs_current_prompt_id = Some prid, gs_status = st,
                      gs_created_at = clock s, gs_updated_at = clock s\<rparr>
           in (None,
               tick (s\<lparr>t_game_state := t_game_state s @ [row],
                        next_uuid := Suc (next_uuid s)\<rparr>))))"

definition insert_response :: "uuid \<Rightarrow> uuid \<Rightarrow> uuid \<Rightarrow> js_string \<Rightarrow> store \<Rightarrow> pg_error option \<times> store" where
  "insert_response rid pid prid body s =
     (case fault s of
        Some e \<Rightarrow> (Some e, s)
      | None \<Rightarrow>
          (let row = \<lparr>rs_id = next_uuid s, rs_room_id = rid, rs_player_id = pid,
                      rs_prompt_id = prid, rs_response = body, rs_created_at = clock s\<rparr>
           in (None,
               tick (s\<lparr>t_responses := t_responses s @ [row],
                        next_uuid := Suc (next_uuid s)\<rparr>))))"

text \<open>
  The selects of the pages. \<^verbatim>\<open>order("turn_order", {ascending: true})\<close> names
  one sort key, and all joiners share the value 0 of it: the store may answer rows of equal
  \<open>turn_order\<close> in any order, and in another order at the next query. \<open>scan\<close> ranks
  the rows as the store happens to read them for one query; rows of equal
  \<open>turn_order\<close> come out by their rank. \<^verbatim>\<open>order("created_at", {ascending:
  false})\<close> is a sort of the table order, and \<^verbatim>\<open>limit(100)\<close> keeps the
  first hundred rows.
\<close>

definition order_by_turn_order :: "(player \<Rightarrow> nat) \<Rightarrow> player list \<Rightarrow> player list" where
  "order_by_turn_order scan rows = sort_key pl_turn_order (sort_key scan rows)"

definition select_players :: "(player \<Rightarrow> nat) \<Rightarrow> uuid \<Rightarrow> store \<Rightarrow> pg_error + player list" where
  "select_players scan rid s =
     db_select s (order_by_turn_order scan (filter (\<lambda>p. pl_room_id p = rid) (t_players s)))"

definition select_prompts_of_type :: "prompt_type \<Rightarrow> store \<Rightarrow> pg_error + prompt list" where
  "select_prompts_of_type ty s = db_select s (filter (\<lambda>p. pr_type p = ty) (t_prompts s))"

definition select_prompts_limit :: "nat \<Rightarrow> store \<Rightarrow> pg_error + prompt list" where
  "select_prompts_limit n s = db_select s (take n (t_prompts s))"

definition select_prompt_by_id :: "uuid \<Rightarrow> store \<Rightarrow> pg_error + prompt" where
  "select_prompt_by_id prid s = single (db_select s (filter (\<lambda>p. pr_id p = prid) (t_prompts s)))"

definition select_game_state :: "uuid \<Rightarrow> store \<Rightarrow> pg_error + game_state" where
  "select_game_state rid s =
     single (db_select s (filter (\<lambda>g. gs_room_id g = rid) (t_game_state s)))"

definition select_room_by_code :: "js_string \<Rightarrow> store \<Rightarrow> pg_error + room" where
  "select_room_by_code code s =
     single (db_select s (filter (\<lambda>r. r_code r = code) (t_rooms s)))"

text \<open>
  A response with its embedded resources \<^verbatim>\<open>players:player_id (nickname)\<close> and
  \<^verbatim>\<open>prompts:prompt_id (content, type)\<close>; an embedded resource is null when
  the referenced row is missing.
\<close>

record ext_response =
  er_row :: response
  er_players :: "js_string option"
  er_prompts :: "(js_string \<times> prompt_type) option"

definition embed_row :: "store \<Rightarrow> response \<Rightarrow> ext_response" where
  "embed_row s r =
     \<lparr>er_row = r,
      er_players = map_option pl_nickname (find (\<lambda>p. pl_id p = rs_player_id r) (t_players s)),
      er_prompts = map_option (\<lambda>p. (pr_content p, pr_type p))
                     (find (\<lambda>p. pr_id p = rs_prompt_id r) (t_prompts s))\<rparr>"

definition select_responses :: "uuid \<Rightarrow> store \<Rightarrow> pg_error + ext_response list" where
  "select_responses rid s =
     db_select s
       (map (embed_row s)
          (sort_key (\<lambda>r. - int (rs_created_at r))
             (filter (\<lambda>r. rs_room_id r = rid) (t_responses s))))"

section \<open>JavaScript values\<close>

text \<open>
  \<^verbatim>\<open>Array.prototype.findIndex\<close>: the first index whose element satisfies the
  predicate, \<open>-1\<close> when there is none.
\<close>

fun findIndex_from :: "nat \<Rightarrow> ('a \<Rightarrow> bool) \<Rightarrow> 'a list \<Rightarrow> int" where
  "findIndex_from k P [] = - 1"
| "findIndex_from k P (x # xs) = (if P x then int k else findIndex_from (Suc k) P xs)"

definition findIndex :: "('a \<Rightarrow> bool) \<Rightarrow> 'a list \<Rightarrow> int" where
  "findIndex P xs = findIndex_from 0 P xs"

text \<open>
  The remainder operator \<^verbatim>\<open>%\<close> on integers: the sign of the dividend. It is
  only applied to a non-zero divisor here.
\<close>

definition js_rem :: "int \<Rightarrow> int \<Rightarrow> int" where
  "js_rem a b = sgn a * (\<bar>a\<bar> mod \<bar>b\<bar>)"

text \<open>An array read \<^verbatim>\<open>xs[i]\<close>: \<open>None\<close> is \<^verbatim>\<open>undefined\<close>.\<close>

definition js_index :: "'a list \<Rightarrow> int \<Rightarrow> 'a option" where
  "js_index xs i = (if 0 \<le> i \<and> i < int (length xs) then Some (xs ! nat i) else None)"

text \<open>
  \<^verbatim>\<open>Math.floor(Math.random() * n)\<close>, for the value \<open>rnd\<close> that
  \<^verbatim>\<open>Math.random()\<close> returned.
\<close>

definition random_index :: "real \<Rightarrow> nat \<Rightarrow> int" where
  "random_index rnd n = \<lfloor>rnd * real n\<rfloor>"

text \<open>A string literal of the source, all of whose characters are ASCII.\<close>

definition ascii :: "string \<Rightarrow> js_string" where
  "ascii s = map of_char s"

text \<open>
  \<^verbatim>\<open>String.prototype.trim\<close> strips the code units that ECMAScript calls
  WhiteSpace or LineTerminator from both ends: tab, line feed, vertical tab, form feed,
  carriage return, space, no-break space, the other space separators of Unicode
  (U+1680, U+2000 to U+200A, U+202F, U+205F, U+3000), the line and paragraph separators
  (U+2028, U+2029) and the byte order mark (U+FEFF).
\<close>

definition is_space :: "code_unit \<Rightarrow> bool" where
  "is_space c =
     (c \<in> set [0x09, 0x0A, 0x0B, 0x0C, 0x0D, 0x20, 0xA0, 0x1680, 0x2028, 0x2029, 0x202F,
                0x205F, 0x3000, 0xFEFF]
      \<or> (0x2000 \<le> c \<and> c \<le> 0x200A))"

definition trim :: "js_string \<Rightarrow> js_string" where
  "trim s = rev (dropWhile is_space (rev (dropWhile is_space s)))"

text \<open>
  \<^verbatim>\<open>Number.prototype.toString\<close> of a non-negative integer: its decimal
  digits, \<open>0x30\<close> being the digit zero.
\<close>

definition digit :: "nat \<Rightarrow> code_unit" where
  "digit d = 0x30 + d"

fun toString :: "nat \<Rightarrow> js_string" where
  "toString n = (if n < 10 then [digit n] else toString (n div 10) @ [digit (n mod 10)])"

declare toString.simps [simp del]

text \<open>
  What a \<^verbatim>\<open>try\<close> block throws: an \<^verbatim>\<open>Error\<close> with its message,
  the engine's \<^verbatim>\<open>TypeError\<close> on reading a property of
  \<^verbatim>\<open>undefined\<close>, or the error object of a store call. The
  \<^verbatim>\<open>catch\<close> blocks show \<^verbatim>\<open>err.message\<close>.
\<close>

datatype exn = Error string | TypeError string | StoreError pg_error

fun message :: "exn \<Rightarrow> string" where
  "message (Error m) = m"
| "message (TypeError m) = m"
| "message (StoreError e) = pg_message e"

definition undefined_id :: exn where
  "undefined_id = TypeError ''Cannot read properties of undefined (reading 'id')''"

section \<open>GamePage.tsx\<close>

text \<open>
  The state of the page: its \<^verbatim>\<open>useState\<close> cells and the two keys it reads
  from \<^verbatim>\<open>sessionStorage\<close>.
\<close>

record game_page =
  gp_players :: "player list"
  gp_currentPrompt :: "prompt option"
  gp_gameState :: "game_state option"
  gp_loading :: bool
  gp_error :: string
  gp_selectedType :: "prompt_type option"
  gp_isCurrentPlayer :: bool
  gp_response :: js_string
  gp_hasResponded :: bool
  gp_responses :: "ext_response list"
  gp_showTypeSelection :: bool
  gp_showConfetti :: bool
  gp_playerId :: "uuid option"
  gp_roomId :: "uuid option"

text \<open>Lines 311 to 316: the index of the current player and of the next one.\<close>

definition currentPlayerIndex :: "player list \<Rightarrow> game_state \<Rightarrow> int" where
  "currentPlayerIndex ps g = findIndex (\<lambda>p. pl_id p = gs_current_player_id g) ps"

definition nextPlayerIndex :: "player list \<Rightarrow> game_state \<Rightarrow> int" where
  "nextPlayerIndex ps g = js_rem (currentPlayerIndex ps g + 1) (int (length ps))"

definition handleNextTurn :: "game_page \<Rightarrow> store \<Rightarrow> game_page \<times> store" where
  "handleNextTurn c s =
     (case gp_roomId c of
        None \<Rightarrow> (c, s)
      | Some rid \<Rightarrow>
         (case gp_gameState c of
            None \<Rightarrow> (c, s)
          | Some g \<Rightarrow>
             if length (gp_players c) = 0 then (c, s)
             else
               (case js_index (gp_players c) (nextPlayerIndex (gp_players c) g) of
                  None \<Rightarrow> (c\<lparr>gp_error := message undefined_id\<rparr>, s)
                | Some nextPlayer \<Rightarrow>
                   (case update_game_state
                           \<lparr>p_current_player_id = Some (pl_id nextPlayer),
                            p_current_prompt_id = None\<rparr> rid s of
                      (Some e, s') \<Rightarrow> (c\<lparr>gp_error := message (StoreError e)\<rparr>, s')
                    | (None, s') \<Rightarrow>
                        (c\<lparr>gp_showTypeSelection := True, gp_selectedType := None,
                           gp_response := [], gp_hasResponded := False\<rparr>, s')))))"

text \<open>Lines 112 to 125.\<close>

definition fetchCurrentPrompt :: "uuid \<Rightarrow> game_page \<Rightarrow> store \<Rightarrow> game_page" where
  "fetchCurrentPrompt promptId c s =
     (case select_prompt_by_id promptId s of
        Inl e \<Rightarrow> c\<lparr>gp_error := message (StoreError e)\<rparr>
      | Inr data \<Rightarrow> c\<lparr>gp_currentPrompt := Some data\<rparr>)"

text \<open>
  Lines 68 to 88. The \<^verbatim>\<open>finally\<close> block runs on every path, the early
  return included.
\<close>

definition fetchGameState :: "game_page \<Rightarrow> store \<Rightarrow> game_page" where
  "fetchGameState c s =
     (case gp_roomId c of
        None \<Rightarrow> c\<lparr>gp_loading := False\<rparr>
      | Some rid \<Rightarrow>
         (case select_game_state rid s of
            Inl e \<Rightarrow> c\<lparr>gp_error := message (StoreError e), gp_loading := False\<rparr>
          | Inr data \<Rightarrow>
             (let c1 = c\<lparr>gp_gameState := Some data\<rparr>;
                  c2 = (case gs_current_prompt_id data of
                          None \<Rightarrow> c1
                        | Some promptId \<Rightarrow> fetchCurrentPrompt promptId c1 s)
              in c2\<lparr>gp_loading := False\<rparr>)))"

text \<open>Lines 91 to 109; \<open>scan\<close> is the store's order of reading for this query.\<close>

definition fetchPlayers :: "(player \<Rightarrow> nat) \<Rightarrow> game_page \<Rightarrow> store \<Rightarrow> game_page" where
  "fetchPlayers scan c s =
     (case gp_roomId c of
        None \<Rightarrow> c
      | Some rid \<Rightarrow>
         (case select_players scan rid s of
            Inl e \<Rightarrow> c\<lparr>gp_error := message (StoreError e)\<rparr>
          | Inr data \<Rightarrow>
             c\<lparr>gp_players := data,
               gp_isCurrentPlayer :=
                 (case gp_gameState c of
                    None \<Rightarrow> False
                  | Some g \<Rightarrow> gp_playerId c = Some (gs_current_player_id g))\<rparr>))"

text \<open>Lines 128 to 149.\<close>

definition fetchResponses :: "game_page \<Rightarrow> store \<Rightarrow> game_page" where
  "fetchResponses c s =
     (case gp_roomId c of
        None \<Rightarrow> c
      | Some rid \<Rightarrow>
         (case select_responses rid s of
            Inl e \<Rightarrow> c\<lparr>gp_error := message (StoreError e)\<rparr>
          | Inr data \<Rightarrow> c\<lparr>gp_responses := data\<rparr>))"

text \<open>
  Lines 248 to 278; \<open>rnd\<close> is the value of \<^verbatim>\<open>Math.random()\<close>. The
  result of the final update is not inspected.
\<close>

definition handleTypeSelection :: "prompt_type \<Rightarrow> real \<Rightarrow> game_page \<Rightarrow> store \<Rightarrow> game_page \<times> store" where
  "handleTypeSelection ty rnd c s =
     (let c1 = c\<lparr>gp_selectedType := Some ty, gp_showTypeSelection := False,
                 gp_response := [], gp_hasResponded := False\<rparr>
      in case gp_roomId c of
           None \<Rightarrow> (c1, s)
         | Some rid \<Rightarrow>
            (case select_prompts_of_type ty s of
               Inl e \<Rightarrow> (c1\<lparr>gp_error := message (StoreError e)\<rparr>, s)
             | Inr prompts \<Rightarrow>
                if length prompts = 0
                then (c1\<lparr>gp_error := message (Error ''No prompts found'')\<rparr>, s)
                else
                  (case js_index prompts (random_index rnd (length prompts)) of
                     None \<Rightarrow> (c1\<lparr>gp_error := message undefined_id\<rparr>, s)
                   | Some randomPrompt \<Rightarrow>
                      (c1, snd (update_game_state
                                  \<lparr>p_current_player_id = None,
                                   p_current_prompt_id = Some (pr_id randomPrompt)\<rparr> rid s)))))"

text \<open>
  Lines 280 to 304, up to the two timers. The result of the insert is not inspected.
  The first timer hides the confetti again; the second calls \<open>handleNextTurn\<close>
  two seconds later.
\<close>

definition handleSubmitResponse :: "game_page \<Rightarrow> store \<Rightarrow> game_page \<times> store" where
  "handleSubmitResponse c s =
     (case gp_roomId c of
        None \<Rightarrow> (c, s)
      | Some rid \<Rightarrow>
         (case gp_playerId c of
            None \<Rightarrow> (c, s)
          | Some pid \<Rightarrow>
             (case gp_currentPrompt c of
                None \<Rightarrow> (c, s)
              | Some currentPrompt \<Rightarrow>
                 (c\<lparr>gp_hasResponded := True, gp_showConfetti := True\<rparr>,
                  snd (insert_response rid pid (pr_id currentPrompt)
                         (trim (gp_response c)) s)))))"

text \<open>
  One turn as a page sees it: the change feed has brought it the game state of the
  store, the roster is the one the page holds, and its timer calls
  \<open>handleNextTurn\<close>.
\<close>

definition advance :: "game_page \<times> store \<Rightarrow> game_page \<times> store" where
  "advance cs = handleNextTurn (fetchGameState (fst cs) (snd cs)) (snd cs)"

text \<open>The player whose turn it is in a room, as the store has it.\<close>

definition current_player_id_of :: "uuid \<Rightarrow> store \<Rightarrow> uuid option" where
  "current_player_id_of rid s =
     (case select_game_state rid s of
        Inl e \<Rightarrow> None
      | Inr g \<Rightarrow> Some (gs_current_player_id g))"

section \<open>RoomLobbyPage.tsx\<close>

record lobby_page =
  lb_players :: "player list"
  lb_loading :: bool
  lb_error :: string
  lb_isHost :: bool
  lb_gameStarted :: bool
  lb_roomId :: "uuid option"
  lb_roomCode :: js_string
  lb_location :: js_string

text \<open>
  Lines 22 to 40 of the lobby; \<open>scan\<close> is the store's order of reading for this query.
\<close>

definition lobby_fetchPlayers :: "(player \<Rightarrow> nat) \<Rightarrow> lobby_page \<Rightarrow> store \<Rightarrow> lobby_page" where
  "lobby_fetchPlayers scan l s =
     (case lb_roomId l of
        None \<Rightarrow> l\<lparr>lb_loading := False\<rparr>
      | Some rid \<Rightarrow>
         (case select_players scan rid s of
            Inl e \<Rightarrow> l\<lparr>lb_error := message (StoreError e), lb_loading := False\<rparr>
          | Inr data \<Rightarrow> l\<lparr>lb_players := data, lb_loading := False\<rparr>))"

text \<open>
  Lines 132 to 177; \<open>rnd\<close> is the value of \<^verbatim>\<open>Math.random()\<close>. The
  result of the update of the room is not inspected. In the row to insert,
  \<^verbatim>\<open>firstPlayer.id\<close> is read before \<^verbatim>\<open>randomPrompt.id\<close>.
\<close>

definition startGame :: "real \<Rightarrow> lobby_page \<Rightarrow> store \<Rightarrow> lobby_page \<times> store" where
  "startGame rnd l s =
     (case lb_roomId l of
        None \<Rightarrow> (l, s)
      | Some rid \<Rightarrow>
         (let s1 = snd (update_room_status Active rid s);
              firstPlayer = js_index (lb_players l) 0
          in case select_prompts_limit 100 s1 of
               Inl e \<Rightarrow> (l\<lparr>lb_error := message (StoreError e)\<rparr>, s1)
             | Inr prompts \<Rightarrow>
                if length prompts = 0
                then (l\<lparr>lb_error := message (Error ''No prompts available'')\<rparr>, s1)
                else
                  (case firstPlayer of
                     None \<Rightarrow> (l\<lparr>lb_error := message undefined_id\<rparr>, s1)
                   | Some fp \<Rightarrow>
                      (case js_index prompts (random_index rnd (length prompts)) of
                         None \<Rightarrow> (l\<lparr>lb_error := message undefined_id\<rparr>, s1)
                       | Some randomPrompt \<Rightarrow>
                          (case insert_game_state rid (pl_id fp) (pr_id randomPrompt) Active s1 of
                             (Some e, s2) \<Rightarrow> (l\<lparr>lb_error := message (StoreError e)\<rparr>, s2)
                           | (None, s2) \<Rightarrow>
                               (l\<lparr>lb_location := ascii ''/game/'' @ lb_roomCode l\<rparr>, s2))))))"

section \<open>JoinRoomPage.tsx and CreateRoomPage.tsx\<close>

text \<open>What the pages keep in \<^verbatim>\<open>sessionStorage\<close>, and the current route.\<close>

record browser =
  b_playerId :: "uuid option"
  b_roomId :: "uuid option"
  b_nickname :: "js_string option"
  b_roomCode :: "js_string option"
  b_location :: js_string

record join_page =
  jn_nickname :: js_string
  jn_roomCode :: js_string
  jn_loading :: bool
  jn_error :: string

text \<open>
  Lines 49 to 112 of the join page. The room is looked up by the code as typed; the
  nickname is stored trimmed. \<^verbatim>\<open>.single()\<close> answers with a row or with an
  error, so the test \<^verbatim>\<open>!room\<close> after the error test never fires.
\<close>

definition join_failed :: "exn \<Rightarrow> join_page \<Rightarrow> join_page" where
  "join_failed e j = j\<lparr>jn_error := message e, jn_loading := False\<rparr>"

definition handleJoinRoom :: "join_page \<Rightarrow> browser \<Rightarrow> store \<Rightarrow> join_page \<times> browser \<times> store" where
  "handleJoinRoom j b s =
     (if trim (jn_nickname j) = [] \<or> trim (jn_roomCode j) = []
      then (j\<lparr>jn_error := ''Please enter both nickname and room code''\<rparr>, b, s)
      else
        (let j1 = j\<lparr>jn_loading := True, jn_error := []\<rparr>
         in case select_room_by_code (jn_roomCode j) s of
              Inl roomError \<Rightarrow>
                if pg_code roomError = ''PGRST116''
                then (join_failed (Error ''Room not found. Please check the room code.'') j1, b, s)
                else (join_failed (StoreError roomError) j1, b, s)
            | Inr room \<Rightarrow>
                if r_status room = Active
                then (join_failed (Error ''Game has already started'') j1, b, s)
                else
                  (case insert_player (trim (jn_nickname j)) (r_id room) False 0 s of
                     (Inl playerError, s') \<Rightarrow>
                       (join_failed (Error ''Failed to join room. Please try again.'') j1, b, s')
                   | (Inr player, s') \<Rightarrow>
                       (j1\<lparr>jn_loading := False\<rparr>,
                        b\<lparr>b_playerId := Some (pl_id player), b_roomId := Some (r_id room),
                          b_nickname := Some (trim (jn_nickname j)),
                          b_location := ascii ''/room/'' @ jn_roomCode j\<rparr>,
                        s'))))"

record create_page =
  cp_nickname :: js_string
  cp_loading :: bool
  cp_error :: string

text \<open>Line 6 of the create page.\<close>

definition generateRoomCode :: "real \<Rightarrow> js_string" where
  "generateRoomCode rnd = toString (nat \<lfloor>100000 + rnd * 900000\<rfloor>)"

text \<open>
  Lines 15 to 55 of the create page. An error with an empty message is shown as
  \<^verbatim>\<open>Something went wrong\<close>.
\<close>

definition create_failed :: "exn \<Rightarrow> create_page \<Rightarrow> create_page" where
  "create_failed e p =
     p\<lparr>cp_error := (if message e = [] then ''Something went wrong'' else message e),
       cp_loading := False\<rparr>"

definition handleCreateRoom :: "real \<Rightarrow> create_page \<Rightarrow> browser \<Rightarrow> store \<Rightarrow> create_page \<times> browser \<times> store" where
  "handleCreateRoom rnd p b s =
     (let p1 = p\<lparr>cp_loading := True, cp_error := []\<rparr>;
          code = generateRoomCode rnd
      in case insert_room code s of
           (Inl roomError, s1) \<Rightarrow> (create_failed (StoreError roomError) p1, b, s1)
         | (Inr room, s1) \<Rightarrow>
            (case insert_player (cp_nickname p) (r_id room) True 1 s1 of
               (Inl playerError, s2) \<Rightarrow> (create_failed (StoreError playerError) p1, b, s2)
             | (Inr player, s2) \<Rightarrow>
                (p1\<lparr>cp_loading := False\<rparr>,
                 b\<lparr>b_playerId := Some (pl_id player), b_roomId := Some (r_id room),
                   b_roomCode := Some code, b_location := ascii ''/room/'' @ code\<rparr>,
                 s2)))"

section \<open>Rooms, pages and catalogs to run the handlers on\<close>

text \<open>
  A room with two players: Ann created it, Bob joined it. In \<open>store1\<close> the game
  has started, it is Bob's turn, and the catalog holds two truth prompts and no dare
  prompt; \<open>page1\<close> is Bob's game page.
\<close>

definition ann :: player where
  "ann = \<lparr>pl_id = 2, pl_nickname = ascii ''Ann'', pl_room_id = 1, pl_is_host = True,
          pl_turn_order = 1, pl_created_at = 1\<rparr>"

definition bob :: player where
  "bob = \<lparr>pl_id = 3, pl_nickname = ascii ''Bob'', pl_room_id = 1, pl_is_host = False,
          pl_turn_order = 0, pl_created_at = 2\<rparr>"

definition truth1 :: prompt where
  "truth1 = \<lparr>pr_id = 4, pr_type = Truth, pr_content = ascii ''What is your biggest fear?'',
             pr_created_at = 0\<rparr>"

definition truth2 :: prompt where
  "truth2 = \<lparr>pr_id = 5, pr_type = Truth, pr_content = ascii ''What is the worst lie you have ever told?'',
             pr_created_at = 0\<rparr>"

definition game1 :: game_state where
  "game1 = \<lparr>gs_id = 6, gs_room_id = 1, gs_current_player_id = 3,
            gs_current_prompt_id = Some 4, gs_status = Active,
            gs_created_at = 3, gs_updated_at = 3\<rparr>"

definition store1 :: store where
  "store1 = \<lparr>t_rooms = [\<lparr>r_id = 1, r_code = ascii ''482913'', r_created_at = 0, r_status = Active\<rparr>],
             t_players = [ann, bob],
             t_prompts = [truth1, truth2],
             t_game_state = [game1],
             t_responses = [],
             clock = 4, next_uuid = 7, fault = None\<rparr>"

definition page1 :: game_page where
  "page1 = \<lparr>gp_players = [bob, ann], gp_currentPrompt = Some truth1,
            gp_gameState = Some game1, gp_loading = False, gp_error = [],
            gp_selectedType = None, gp_isCurrentPlayer = True, gp_response = ascii ''I once sang karaoke'',
            gp_hasResponded = False, gp_responses = [], gp_showTypeSelection = True,
            gp_showConfetti = False, gp_playerId = Some 3, gp_roomId = Some 1\<rparr>"

text \<open>A page whose snapshot names a current player that is not in its roster.\<close>

definition stale_page :: game_page where
  "stale_page = page1\<lparr>gp_gameState := Some (game1\<lparr>gs_current_player_id := 99\<rparr>)\<rparr>"

text \<open>The same room before the game has started, with an empty catalog.\<close>

definition lobby_store :: store where
  "lobby_store = \<lparr>t_rooms = [\<lparr>r_id = 1, r_code = ascii ''482913'', r_created_at = 0, r_status = Waiting\<rparr>],
                  t_players = [ann, bob],
                  t_prompts = [],
                  t_game_state = [],
                  t_responses = [],
                  clock = 3, next_uuid = 4, fault = None\<rparr>"

definition lobby1 :: lobby_page where
  "lobby1 = \<lparr>lb_players = [bob, ann], lb_loading = False, lb_error = [], lb_isHost = True,
             lb_gameStarted = False, lb_roomId = Some 1, lb_roomCode = ascii ''482913'',
             lb_location = ascii ''/room/482913''\<rparr>"

definition join1 :: join_page where
  "join1 = \<lparr>jn_nickname = ascii ''Bob'', jn_roomCode = ascii ''482913'', jn_loading = False, jn_error = []\<rparr>"

definition browser0 :: browser where
  "browser0 = \<lparr>b_playerId = None, b_roomId = None, b_nickname = None, b_roomCode = None,
               b_location = ascii ''/join''\<rparr>"

text \<open>The started game after one response.\<close>

definition response1 :: response where
  "response1 = \<lparr>rs_id = 7, rs_room_id = 1, rs_player_id = 2, rs_prompt_id = 5,
                rs_response = ascii ''Spiders'', rs_created_at = 4\<rparr>"

definition store2 :: store where
  "store2 = store1\<lparr>t_responses := [response1], clock := 5, next_uuid := 8\<rparr>"

text \<open>A catalog of 101 prompts, with the keys 100 to 200.\<close>

definition big_catalog :: "prompt list" where
  "big_catalog =
     map (\<lambda>n. \<lparr>pr_id = 100 + n, pr_type = (if even n then Truth else Dare),
               pr_content = ascii ''Tell us'', pr_created_at = 0\<rparr>) [0..<101]"

definition big_store :: store where
  "big_store = lobby_store\<lparr>t_prompts := big_catalog\<rparr>"

text \<open>
  From an empty store: Ann creates a room, Bob joins it with the code the page showed,
  Ann's lobby fetches the players, in whichever order \<open>scan\<close> the store reads them,
  and she starts the game.
\<close>

definition empty_store :: store where
  "empty_store = \<lparr>t_rooms = [], t_players = [], t_prompts = [truth1, truth2],
                  t_game_state = [], t_responses = [],
                  clock = 1, next_uuid = 10, fault = None\<rparr>"

definition ann_creates :: "create_page \<times> browser \<times> store" where
  "ann_creates =
     handleCreateRoom 0 \<lparr>cp_nickname = ascii ''Ann'', cp_loading = False, cp_error = []\<rparr>
       browser0 empty_store"

definition bob_joins :: "join_page \<times> browser \<times> store" where
  "bob_joins =
     handleJoinRoom
       \<lparr>jn_nickname = ascii ''Bob'', jn_roomCode = ascii ''100000'', jn_loading = False, jn_error = []\<rparr>
       browser0 (snd (snd ann_creates))"

definition ann_lobby :: "(player \<Rightarrow> nat) \<Rightarrow> lobby_page" where
  "ann_lobby scan =
     lobby_fetchPlayers scan
       \<lparr>lb_players = [], lb_loading = True, lb_error = [], lb_isHost = True,
        lb_gameStarted = False, lb_roomId = b_roomId (fst (snd ann_creates)),
        lb_roomCode = ascii ''100000'', lb_location = ascii ''/room/100000''\<rparr>
       (snd (snd bob_joins))"

definition ann_starts :: "(player \<Rightarrow> nat) \<Rightarrow> lobby_page \<times> store" where
  "ann_starts scan = startGame 0 (ann_lobby scan) (snd (snd bob_joins))"

text \<open>Ann's page of the same game, holding the same snapshot as Bob's.\<close>

definition page2 :: game_page where
  "page2 = page1\<lparr>gp_playerId := Some 2, gp_isCurrentPlayer := False, gp_response := []\<rparr>"

section \<open>Turn advance\<close>

lemma findIndex_from_distinct:
  "distinct (map f xs) \<Longrightarrow> i < length xs \<Longrightarrow> findIndex_from k (\<lambda>p. f p = f (xs ! i)) xs = int (k + i)"
proof (induction xs arbitrary: i k)
  case Nil then show ?case by simp
next
  case (Cons x xs)
  show ?case
  proof (cases i)
    case 0 then show ?thesis by simp
  next
    case (Suc j)
    with Cons.prems have "f x \<noteq> f (xs ! j)" "j < length xs" "distinct (map f xs)" by auto
    with Cons.IH[of j "Suc k"] Suc show ?thesis by simp
  qed
qed

lemma findIndex_from_absent:
  "\<forall>x \<in> set xs. \<not> P x \<Longrightarrow> findIndex_from k P xs = - 1"
  by (induction xs arbitrary: k) auto

lemma findIndex_from_bounds:
  "findIndex_from k P xs = - 1 \<or> (int k \<le> findIndex_from k P xs \<and> findIndex_from k P xs < int k + int (length xs))"
proof (induction xs arbitrary: k)
  case Nil then show ?case by simp
next
  case (Cons x xs)
  from Cons.IH[of "Suc k"] show ?case by auto
qed

lemma findIndex_bounds: "- 1 \<le> findIndex P xs \<and> findIndex P xs < int (length xs)"
  using findIndex_from_bounds[of 0 P xs] by (auto simp: findIndex_def)

lemma js_rem_nonneg: "0 \<le> a \<Longrightarrow> 0 < b \<Longrightarrow> js_rem a b = a mod b"
  by (cases "a = 0") (simp_all add: js_rem_def)

lemma nextPlayerIndex_bounds:
  assumes "ps \<noteq> []"
  shows "0 \<le> nextPlayerIndex ps g \<and> nextPlayerIndex ps g < int (length ps)"
proof -
  let ?k = "findIndex (\<lambda>p. pl_id p = gs_current_player_id g) ps"
  have k: "0 \<le> ?k + 1" using findIndex_bounds[of "\<lambda>p. pl_id p = gs_current_player_id g" ps] by simp
  have n: "0 < int (length ps)" using assms by simp
  have "nextPlayerIndex ps g = (?k + 1) mod int (length ps)"
    unfolding nextPlayerIndex_def currentPlayerIndex_def by (rule js_rem_nonneg[OF k n])
  with n show ?thesis by simp
qed

lemma nextPlayerIndex_found:
  assumes "distinct (map pl_id ps)" "i < length ps" "gs_current_player_id g = pl_id (ps ! i)"
  shows "nextPlayerIndex ps g = int (Suc i mod length ps)"
proof -
  have k: "currentPlayerIndex ps g = int i"
    using findIndex_from_distinct[of pl_id ps i 0] assms
    by (simp add: currentPlayerIndex_def findIndex_def)
  have n: "0 < int (length ps)" using assms(2) by (cases ps) simp_all
  have "js_rem (int i + 1) (int (length ps)) = (int i + 1) mod int (length ps)"
    by (rule js_rem_nonneg[OF _ n]) simp
  then show ?thesis by (simp add: nextPlayerIndex_def k zmod_int add.commute)
qed

lemma nextPlayerIndex_stale:
  assumes "gs_current_player_id g \<notin> set (map pl_id ps)"
  shows "nextPlayerIndex ps g = 0"
proof -
  have "currentPlayerIndex ps g = - 1"
  proof -
    from assms have "\<forall>x \<in> set ps. \<not> pl_id x = gs_current_player_id g"
      by (force simp: image_iff)
    then show ?thesis
      unfolding currentPlayerIndex_def findIndex_def by (rule findIndex_from_absent)
  qed
  then show ?thesis by (simp add: nextPlayerIndex_def js_rem_def)
qed


lemma single_Inr_iff: "single (Inr xs) = Inr x \<longleftrightarrow> xs = [x]"
proof (cases xs)
  case Nil then show ?thesis by simp
next
  case (Cons a as) then show ?thesis by (cases as) auto
qed

lemma single_db_select:
  "single (db_select s xs) = Inr x \<longleftrightarrow> fault s = None \<and> xs = [x]"
  by (cases "fault s") (simp_all add: db_select_def single_Inr_iff)

lemma select_game_state_Inr:
  "select_game_state rid s = Inr g \<longleftrightarrow>
     fault s = None \<and> filter (\<lambda>g. gs_room_id g = rid) (t_game_state s) = [g]"
  by (simp add: select_game_state_def single_db_select)

lemma select_players_Inr:
  "select_players scan rid s = Inr ps \<longleftrightarrow>
     fault s = None
     \<and> ps = order_by_turn_order scan (filter (\<lambda>p. pl_room_id p = rid) (t_players s))"
  by (cases "fault s") (auto simp: select_players_def db_select_def)

lemma apply_gs_patch_room [simp]: "gs_room_id (apply_gs_patch p now g) = gs_room_id g"
  by (simp add: apply_gs_patch_def)

lemma filter_room_update:
  "filter (\<lambda>g. gs_room_id g = rid)
     (map (\<lambda>g. if gs_room_id g = rid then apply_gs_patch p now g else g) gs)
   = map (apply_gs_patch p now) (filter (\<lambda>g. gs_room_id g = rid) gs)"
  by (induction gs) simp_all

lemma update_game_state_ok:
  "fault s = None \<Longrightarrow>
   update_game_state p rid s =
     (None, tick (s\<lparr>t_game_state :=
                    map (\<lambda>g. if gs_room_id g = rid then apply_gs_patch p (clock s) g else g)
                        (t_game_state s)\<rparr>))"
  by (simp add: update_game_state_def)

lemma handleNextTurn_ok:
  assumes "gp_roomId c = Some rid" "gp_gameState c = Some g" "gp_players c \<noteq> []" "fault s = None"
  shows "handleNextTurn c s =
    (c\<lparr>gp_showTypeSelection := True, gp_selectedType := None,
       gp_response := [], gp_hasResponded := False\<rparr>,
     tick (s\<lparr>t_game_state :=
        map (\<lambda>g'. if gs_room_id g' = rid
                  then apply_gs_patch
                         \<lparr>p_current_player_id =
                            Some (pl_id (gp_players c ! nat (nextPlayerIndex (gp_players c) g))),
                          p_current_prompt_id = None\<rparr> (clock s) g'
                  else g')
            (t_game_state s)\<rparr>))"
  using assms nextPlayerIndex_bounds[OF assms(3), of g]
  by (simp add: handleNextTurn_def js_index_def update_game_state_ok)


lemma fetchCurrentPrompt_keeps [simp]:
  "gp_roomId (fetchCurrentPrompt p c s) = gp_roomId c"
  "gp_gameState (fetchCurrentPrompt p c s) = gp_gameState c"
  "gp_players (fetchCurrentPrompt p c s) = gp_players c"
  by (simp_all add: fetchCurrentPrompt_def split: sum.splits)

lemma fetchGameState_ok:
  assumes "gp_roomId c = Some rid" "select_game_state rid s = Inr g"
  shows "gp_roomId (fetchGameState c s) = Some rid \<and> gp_gameState (fetchGameState c s) = Some g"
  using assms by (simp add: fetchGameState_def Let_def split: option.splits)

lemma fetchGameState_players [simp]:
  "gp_players (fetchGameState c s) = gp_players c"
  by (simp add: fetchGameState_def Let_def split: option.splits sum.splits)

lemma fetchPlayers_ok:
  assumes "gp_roomId c = Some rid" "select_players scan rid s = Inr ps"
  shows "gp_roomId (fetchPlayers scan c s) = Some rid
         \<and> gp_gameState (fetchPlayers scan c s) = gp_gameState c
         \<and> gp_players (fetchPlayers scan c s) = ps"
  using assms by (simp add: fetchPlayers_def)

text \<open>
  What the order of a fetched roster is: ascending in \<open>turn_order\<close>, with the same rows,
  for every order of reading; and every such order of rows with unique keys is the answer
  for some order of reading.
\<close>

lemma order_by_turn_order_sorted:
  "sorted (map pl_turn_order (order_by_turn_order scan rows))
   \<and> set (order_by_turn_order scan rows) = set rows
   \<and> length (order_by_turn_order scan rows) = length rows"
  by (simp add: order_by_turn_order_def)

lemma order_by_turn_order_any:
  assumes perm: "set ps = set rows" "distinct ps" "distinct rows"
    and sorted: "sorted (map pl_turn_order ps)"
  shows "\<exists>scan. order_by_turn_order scan rows = ps"
proof -
  define scan where "scan p = length (takeWhile (\<lambda>q. q \<noteq> p) ps)" for p
  have nth: "scan (ps ! k) = k" if "k < length ps" for k
  proof -
    from that perm(2) have "takeWhile (\<lambda>q. q \<noteq> ps ! k) ps = take k ps"
      by (simp add: takeWhile_not_last takeWhile_eq_take_P_nth nth_eq_iff_index_eq)
    with that show ?thesis by (simp add: scan_def)
  qed
  have ranks: "map scan ps = [0..<length ps]"
    by (rule nth_equalityI) (simp_all add: nth)
  have inj: "inj_on scan (set ps)"
  proof (rule inj_onI)
    fix x y assume "x \<in> set ps" "y \<in> set ps" "scan x = scan y"
    then obtain a b where "a < length ps" "ps ! a = x" "b < length ps" "ps ! b = y"
      by (auto simp: in_set_conv_nth)
    with \<open>scan x = scan y\<close> nth[of a] nth[of b] show "x = y" by auto
  qed
  have "map scan (sort_key scan rows) = map scan ps"
  proof (rule sorted_distinct_set_unique)
    show "sorted (map scan (sort_key scan rows))" by (rule sorted_sort_key)
    show "distinct (map scan (sort_key scan rows))"
      using inj perm by (simp add: distinct_map)
    show "sorted (map scan ps)" by (simp add: ranks)
    show "distinct (map scan ps)" by (simp add: ranks)
    show "set (map scan (sort_key scan rows)) = set (map scan ps)"
      using perm(1) by simp
  qed
  moreover have "inj_on scan (set (sort_key scan rows) \<union> set ps)"
    using inj perm(1) by simp
  ultimately have "sort_key scan rows = ps" by (rule map_inj_on)
  with sorted have "order_by_turn_order scan rows = ps"
    by (simp add: order_by_turn_order_def sort_key_id_if_sorted)
  then show ?thesis by blast
qed

lemma advance_step:
  assumes room: "gp_roomId c = Some rid"
    and gs: "select_game_state rid s = Inr g"
    and key: "distinct (map pl_id (gp_players c))"
    and i: "i < length (gp_players c)"
    and cur: "gs_current_player_id g = pl_id (gp_players c ! i)"
  shows "\<exists>g'. gp_roomId (fst (advance (c, s))) = Some rid
           \<and> gp_players (fst (advance (c, s))) = gp_players c
           \<and> select_game_state rid (snd (advance (c, s))) = Inr g'
           \<and> gs_current_player_id g' = pl_id (gp_players c ! (Suc i mod length (gp_players c)))"
proof -
  let ?ps = "gp_players c"
  let ?c = "fetchGameState c s"
  from gs have fault: "fault s = None"
    and row: "filter (\<lambda>g. gs_room_id g = rid) (t_game_state s) = [g]"
    by (simp_all add: select_game_state_Inr)
  from i have ne: "?ps \<noteq> []" by auto
  from fetchGameState_ok[OF room gs]
  have c1: "gp_roomId ?c = Some rid" "gp_gameState ?c = Some g" by simp_all
  have c2: "gp_players ?c = ?ps" by simp
  have idx: "nextPlayerIndex ?ps g = int (Suc i mod length ?ps)"
    using key i cur by (rule nextPlayerIndex_found)
  have adv: "advance (c, s) = handleNextTurn ?c s" by (simp add: advance_def)
  have ne': "gp_players ?c \<noteq> []" using ne by simp
  note nt = handleNextTurn_ok[OF c1(1) c1(2) ne' fault]
  let ?g' = "apply_gs_patch \<lparr>p_current_player_id = Some (pl_id (?ps ! (Suc i mod length ?ps))),
                              p_current_prompt_id = None\<rparr> (clock s) g"
  have "gp_roomId (fst (advance (c, s))) = Some rid"
    by (simp add: adv nt c1)
  moreover have "gp_players (fst (advance (c, s))) = ?ps"
    by (simp add: adv nt)
  moreover have "select_game_state rid (snd (advance (c, s))) = Inr ?g'"
    by (simp add: adv nt idx select_game_state_Inr tick_def fault filter_room_update row)
  moreover have "gs_current_player_id ?g' = pl_id (?ps ! (Suc i mod length ?ps))"
    by (simp add: apply_gs_patch_def)
  ultimately show ?thesis by blast
qed

lemma advance_steps:
  assumes room: "gp_roomId c = Some rid"
    and gs: "select_game_state rid s = Inr g"
    and key: "distinct (map pl_id (gp_players c))"
    and i: "i < length (gp_players c)"
    and cur: "gs_current_player_id g = pl_id (gp_players c ! i)"
  shows "\<exists>g'. gp_roomId (fst ((advance ^^ k) (c, s))) = Some rid
           \<and> gp_players (fst ((advance ^^ k) (c, s))) = gp_players c
           \<and> select_game_state rid (snd ((advance ^^ k) (c, s))) = Inr g'
           \<and> gs_current_player_id g' = pl_id (gp_players c ! ((i + k) mod length (gp_players c)))"
proof (induction k)
  case 0
  from i have "i mod length (gp_players c) = i" by simp
  with room gs cur show ?case by simp
next
  case (Suc k)
  let ?ps = "gp_players c"
  let ?cs = "(advance ^^ k) (c, s)"
  from Suc obtain g' where
    r: "gp_roomId (fst ?cs) = Some rid" and
    p: "gp_players (fst ?cs) = ?ps" and
    g: "select_game_state rid (snd ?cs) = Inr g'" and
    c: "gs_current_player_id g' = pl_id (?ps ! ((i + k) mod length ?ps))"
    by blast
  from i have "0 < length ?ps" by (cases ?ps) simp_all
  then have lt: "(i + k) mod length ?ps < length ?ps" by (rule mod_less_divisor)
  from key p have key': "distinct (map pl_id (gp_players (fst ?cs)))" by simp
  from lt p have lt': "(i + k) mod length ?ps < length (gp_players (fst ?cs))" by simp
  from c p have c':
    "gs_current_player_id g' = pl_id (gp_players (fst ?cs) ! ((i + k) mod length ?ps))"
    by simp
  from advance_step[OF r g key' lt' c'] p
  obtain g'' where
    "gp_roomId (fst (advance (fst ?cs, snd ?cs))) = Some rid"
    "gp_players (fst (advance (fst ?cs, snd ?cs))) = ?ps"
    "select_game_state rid (snd (advance (fst ?cs, snd ?cs))) = Inr g''"
    "gs_current_player_id g'' = pl_id (?ps ! (Suc ((i + k) mod length ?ps) mod length ?ps))"
    by auto
  moreover have "Suc ((i + k) mod length ?ps) mod length ?ps = (i + Suc k) mod length ?ps"
    by (simp add: mod_Suc_eq)
  ultimately show ?case by auto
qed

text \<open>
  C1. Whatever roster a page holds (player keys are unique): when the player whose turn
  it is stands at index \<open>i\<close> of that roster, one advance writes the player at index
  \<open>(i + 1) mod N\<close> as the current player, and \<open>N\<close> advances in a row bring the current
  player back to where it started. The roster a page holds is one it fetched, and a
  fetched roster is ascending in \<open>turn_order\<close> and holds the players of the room, in
  whichever order the store answers the players of equal \<open>turn_order\<close>.
\<close>

theorem turn_advance_cyclic:
  assumes "gp_roomId c = Some rid"
    and "select_game_state rid s = Inr g"
    and "distinct (map pl_id (gp_players c))"
    and "i < length (gp_players c)"
    and "gs_current_player_id g = pl_id (gp_players c ! i)"
  shows "current_player_id_of rid (snd (advance (c, s)))
           = Some (pl_id (gp_players c ! ((i + 1) mod length (gp_players c))))
       \<and> current_player_id_of rid (snd ((advance ^^ length (gp_players c)) (c, s)))
           = Some (pl_id (gp_players c ! i))
       \<and> (\<forall>scan. sorted (map pl_turn_order (gp_players (fetchPlayers scan c s)))
                 \<and> set (gp_players (fetchPlayers scan c s))
                     = set (filter (\<lambda>p. pl_room_id p = rid) (t_players s)))"
proof -
  from advance_step[OF assms]
  have "current_player_id_of rid (snd (advance (c, s)))
          = Some (pl_id (gp_players c ! ((i + 1) mod length (gp_players c))))"
    by (auto simp: current_player_id_of_def)
  moreover from advance_steps[OF assms, of "length (gp_players c)"] assms(4)
  have "current_player_id_of rid (snd ((advance ^^ length (gp_players c)) (c, s)))
          = Some (pl_id (gp_players c ! i))"
    by (auto simp: current_player_id_of_def)
  moreover have "sorted (map pl_turn_order (gp_players (fetchPlayers scan c s)))
                 \<and> set (gp_players (fetchPlayers scan c s))
                     = set (filter (\<lambda>p. pl_room_id p = rid) (t_players s))" for scan
  proof -
    from assms(2) have "fault s = None" by (simp add: select_game_state_Inr)
    then have "select_players scan rid s
                 = Inr (order_by_turn_order scan (filter (\<lambda>p. pl_room_id p = rid) (t_players s)))"
      by (simp add: select_players_Inr)
    from fetchPlayers_ok[OF assms(1) this] order_by_turn_order_sorted show ?thesis by simp
  qed
  ultimately show ?thesis by blast
qed

theorem turn_advance_cyclic_witness:
  "gp_roomId page1 = Some 1
   \<and> select_game_state 1 store1 = Inr game1
   \<and> gp_players page1 = [bob, ann]
   \<and> distinct (map pl_id (gp_players page1))
   \<and> 0 < length (gp_players page1)
   \<and> gs_current_player_id game1 = pl_id (gp_players page1 ! 0)
   \<and> current_player_id_of 1 (snd (advance (page1, store1))) = Some (pl_id ann)
   \<and> current_player_id_of 1 (snd ((advance ^^ 2) (page1, store1))) = Some (pl_id bob)"
proof -
  have h1: "gp_roomId page1 = Some 1" by (simp add: page1_def)
  have h2: "select_game_state 1 store1 = Inr game1"
    by (simp add: select_game_state_def db_select_def store1_def game1_def)
  have ps: "gp_players page1 = [bob, ann]" by (simp add: page1_def)
  have h3: "distinct (map pl_id (gp_players page1))"
    by (simp add: ps ann_def bob_def)
  have h4: "0 < length (gp_players page1)" by (simp add: ps)
  have h5: "gs_current_player_id game1 = pl_id (gp_players page1 ! 0)"
    by (simp add: ps game1_def bob_def)
  from turn_advance_cyclic[OF h1 h2 h3 h4 h5]
  have "current_player_id_of 1 (snd (advance (page1, store1)))
          = Some (pl_id (gp_players page1 ! ((0 + 1) mod length (gp_players page1))))"
    and "current_player_id_of 1 (snd ((advance ^^ length (gp_players page1)) (page1, store1)))
          = Some (pl_id (gp_players page1 ! 0))"
    by blast+
  then have "current_player_id_of 1 (snd (advance (page1, store1))) = Some (pl_id ann)"
    and "current_player_id_of 1 (snd ((advance ^^ 2) (page1, store1))) = Some (pl_id bob)"
    by (simp_all add: ps numeral_2_eq_2)
  with h1 h2 ps h3 h4 h5 show ?thesis by simp
qed

section \<open>Safety and frame of the advance\<close>

lemma js_index_in_range:
  "0 \<le> i \<Longrightarrow> i < int (length xs) \<Longrightarrow> js_index xs i = Some (xs ! nat i) \<and> xs ! nat i \<in> set xs"
  by (simp add: js_index_def)

text \<open>
  C5. With a roster that is not empty, the index \<open>handleNextTurn\<close> computes lies
  within the roster whatever \<open>current_player_id\<close> the page holds (a key that is
  not in the roster gives \<open>findIndex = -1\<close> and so index 0), the array read is never
  \<^verbatim>\<open>undefined\<close>, no error is shown, and every game state row of the room holds the
  key of a player of the fetched roster afterwards.
\<close>

theorem advance_never_invalid:
  assumes "gp_players c \<noteq> []"
    and "gp_gameState c = Some g"
    and "gp_roomId c = Some rid"
    and "fault s = None"
  shows "0 \<le> nextPlayerIndex (gp_players c) g
       \<and> nextPlayerIndex (gp_players c) g < int (length (gp_players c))
       \<and> js_index (gp_players c) (nextPlayerIndex (gp_players c) g) \<noteq> None
       \<and> gp_error (fst (handleNextTurn c s)) = gp_error c
       \<and> (\<forall>g' \<in> set (t_game_state (snd (handleNextTurn c s))).
             gs_room_id g' = rid \<longrightarrow> gs_current_player_id g' \<in> set (map pl_id (gp_players c)))"
proof -
  let ?ps = "gp_players c"
  let ?k = "nextPlayerIndex ?ps g"
  from nextPlayerIndex_bounds[OF assms(1), of g]
  have b: "0 \<le> ?k" "?k < int (length ?ps)" by simp_all
  from js_index_in_range[OF b]
  have p: "js_index ?ps ?k = Some (?ps ! nat ?k)" "?ps ! nat ?k \<in> set ?ps" by simp_all
  note nt = handleNextTurn_ok[OF assms(3) assms(2) assms(1) assms(4)]
  have e: "gp_error (fst (handleNextTurn c s)) = gp_error c" by (simp add: nt)
  have w: "\<forall>g' \<in> set (t_game_state (snd (handleNextTurn c s))).
             gs_room_id g' = rid \<longrightarrow> gs_current_player_id g' \<in> set (map pl_id ?ps)"
  proof (intro ballI impI)
    fix g'
    let ?F = "\<lambda>g'. if gs_room_id g' = rid
                  then apply_gs_patch
                         \<lparr>p_current_player_id = Some (pl_id (?ps ! nat ?k)),
                          p_current_prompt_id = None\<rparr> (clock s) g'
                  else g'"
    assume "g' \<in> set (t_game_state (snd (handleNextTurn c s)))" and r: "gs_room_id g' = rid"
    then have "g' \<in> ?F ` set (t_game_state s)" by (simp add: nt tick_def)
    then obtain g0 where g0: "g' = ?F g0" by blast
    show "gs_current_player_id g' \<in> set (map pl_id ?ps)"
    proof (cases "gs_room_id g0 = rid")
      case True
      with g0 have "gs_current_player_id g' = pl_id (?ps ! nat ?k)"
        by (simp add: apply_gs_patch_def)
      with p(2) show ?thesis by simp
    next
      case False
      with g0 r show ?thesis by simp
    qed
  qed
  from b p(1) e w show ?thesis by simp
qed

theorem advance_never_invalid_witness:
  "gp_players stale_page \<noteq> []
   \<and> gp_gameState stale_page = Some (game1\<lparr>gs_current_player_id := 99\<rparr>)
   \<and> gp_roomId stale_page = Some 1
   \<and> fault store1 = None
   \<and> 99 \<notin> set (map pl_id (gp_players stale_page))
   \<and> nextPlayerIndex (gp_players stale_page) (game1\<lparr>gs_current_player_id := 99\<rparr>) = 0
   \<and> gp_error (fst (handleNextTurn stale_page store1)) = []
   \<and> map gs_current_player_id (t_game_state (snd (handleNextTurn stale_page store1))) = [pl_id bob]"
proof -
  let ?g = "game1\<lparr>gs_current_player_id := 99\<rparr>"
  have h1: "gp_players stale_page \<noteq> []" by (simp add: stale_page_def page1_def)
  have h2: "gp_gameState stale_page = Some ?g" by (simp add: stale_page_def)
  have h3: "gp_roomId stale_page = Some 1" by (simp add: stale_page_def page1_def)
  have h4: "fault store1 = None" by (simp add: store1_def)
  have ps: "gp_players stale_page = [bob, ann]" by (simp add: stale_page_def page1_def)
  have ids: "99 \<notin> set (map pl_id (gp_players stale_page))" by (simp add: ps ann_def bob_def)
  have k: "nextPlayerIndex (gp_players stale_page) ?g = 0"
    by (simp add: ps nextPlayerIndex_def currentPlayerIndex_def findIndex_def js_rem_def
        ann_def bob_def)
  have r1: "gs_room_id game1 = 1" by (simp add: game1_def)
  have rows: "map gs_room_id (t_game_state (snd (handleNextTurn stale_page store1))) = [1]"
    by (subst handleNextTurn_ok[OF h3 h2 h1 h4]) (simp add: tick_def store1_def game1_def)
  have one: "\<exists>g'. t_game_state (snd (handleNextTurn stale_page store1)) = [g'] \<and> gs_room_id g' = 1"
    using rows by (cases "t_game_state (snd (handleNextTurn stale_page store1))") auto
  from advance_never_invalid[OF h1 h2 h3 h4] one
  have "gp_error (fst (handleNextTurn stale_page store1)) = gp_error stale_page"
    and "\<exists>g'. t_game_state (snd (handleNextTurn stale_page store1)) = [g']
           \<and> gs_current_player_id g' \<in> set (map pl_id (gp_players stale_page))"
    by auto
  moreover have "map gs_current_player_id (t_game_state (snd (handleNextTurn stale_page store1))) = [pl_id bob]"
    using k r1 unfolding ps
    by (subst handleNextTurn_ok[OF h3 h2 h1 h4])
      (simp add: ps tick_def store1_def apply_gs_patch_def)
  ultimately show ?thesis using h1 h2 h3 h4 ids k by (simp add: stale_page_def page1_def)
qed

lemma map_field_update:
  assumes "\<And>g. f (h g) = f g"
  shows "map f (map (\<lambda>g. if P g then h g else g) gs) = map f gs"
  by (induction gs) (simp_all add: assms)

lemma update_game_state_frame:
  "t_rooms (snd (update_game_state p rid s)) = t_rooms s"
  "t_players (snd (update_game_state p rid s)) = t_players s"
  "t_prompts (snd (update_game_state p rid s)) = t_prompts s"
  "t_responses (snd (update_game_state p rid s)) = t_responses s"
  "map gs_id (t_game_state (snd (update_game_state p rid s))) = map gs_id (t_game_state s)"
  "map gs_room_id (t_game_state (snd (update_game_state p rid s))) = map gs_room_id (t_game_state s)"
  "map gs_status (t_game_state (snd (update_game_state p rid s))) = map gs_status (t_game_state s)"
  "map gs_created_at (t_game_state (snd (update_game_state p rid s))) = map gs_created_at (t_game_state s)"
  by (cases "fault s"; simp add: update_game_state_def tick_def map_field_update apply_gs_patch_def)+

lemma update_game_state_prompt_frame:
  "p_current_prompt_id p = None \<Longrightarrow>
   map gs_current_prompt_id (t_game_state (snd (update_game_state p rid s)))
     = map gs_current_prompt_id (t_game_state s)"
  by (cases "fault s"; simp add: update_game_state_def tick_def map_field_update apply_gs_patch_def)

lemma handleNextTurn_store:
  "snd (handleNextTurn c s) = s \<or>
   (\<exists>x rid. snd (handleNextTurn c s) =
      snd (update_game_state \<lparr>p_current_player_id = Some x, p_current_prompt_id = None\<rparr> rid s))"
  by (auto simp: handleNextTurn_def split: option.splits prod.splits) (metis snd_conv)+

text \<open>
  C7. Whatever the page and the store, \<open>handleNextTurn\<close> leaves every table but
  \<open>game_state\<close> as it was, and in \<open>game_state\<close> it leaves the columns
  \<open>current_prompt_id\<close>, \<open>status\<close>, \<open>id\<close>, \<open>room_id\<close> and \<open>created_at\<close> of
  every row as they were: the patch names \<open>current_player_id\<close> only, and the trigger
  of the store refreshes \<open>updated_at\<close>.
\<close>

theorem advance_frame:
  "map gs_current_prompt_id (t_game_state (snd (handleNextTurn c s)))
     = map gs_current_prompt_id (t_game_state s)
   \<and> map gs_status (t_game_state (snd (handleNextTurn c s))) = map gs_status (t_game_state s)
   \<and> map gs_id (t_game_state (snd (handleNextTurn c s))) = map gs_id (t_game_state s)
   \<and> map gs_room_id (t_game_state (snd (handleNextTurn c s))) = map gs_room_id (t_game_state s)
   \<and> map gs_created_at (t_game_state (snd (handleNextTurn c s))) = map gs_created_at (t_game_state s)
   \<and> t_rooms (snd (handleNextTurn c s)) = t_rooms s
   \<and> t_players (snd (handleNextTurn c s)) = t_players s
   \<and> t_prompts (snd (handleNextTurn c s)) = t_prompts s
   \<and> t_responses (snd (handleNextTurn c s)) = t_responses s"
  using handleNextTurn_store[of c s]
  by (auto simp: update_game_state_frame update_game_state_prompt_frame)

section \<open>Empty catalogs\<close>

lemma select_prompts_of_type_ok:
  "fault s = None \<Longrightarrow> select_prompts_of_type ty s = Inr (filter (\<lambda>p. pr_type p = ty) (t_prompts s))"
  by (simp add: select_prompts_of_type_def db_select_def)

text \<open>
  C4. For either prompt type: when the catalog holds no prompt of the chosen type,
  \<open>handleTypeSelection\<close> shows the error \<^verbatim>\<open>No prompts found\<close> and
  leaves the whole store, and so \<open>current_prompt_id\<close>, as it was.
\<close>

theorem choose_type_without_prompts:
  assumes "gp_roomId c = Some rid"
    and "fault s = None"
    and "filter (\<lambda>p. pr_type p = ty) (t_prompts s) = []"
  shows "gp_error (fst (handleTypeSelection ty rnd c s)) = ''No prompts found''
       \<and> snd (handleTypeSelection ty rnd c s) = s"
  using assms by (simp add: handleTypeSelection_def Let_def select_prompts_of_type_ok)

theorem choose_type_without_prompts_witness:
  "gp_roomId page1 = Some 1
   \<and> fault store1 = None
   \<and> filter (\<lambda>p. pr_type p = Dare) (t_prompts store1) = []
   \<and> gp_error (fst (handleTypeSelection Dare 0 page1 store1)) = ''No prompts found''
   \<and> map gs_current_prompt_id (t_game_state (snd (handleTypeSelection Dare 0 page1 store1)))
       = map gs_current_prompt_id (t_game_state store1)"
proof -
  have h1: "gp_roomId page1 = Some 1" by (simp add: page1_def)
  have h2: "fault store1 = None" by (simp add: store1_def)
  have h3: "filter (\<lambda>p. pr_type p = Dare) (t_prompts store1) = []"
    by (simp add: store1_def truth1_def truth2_def)
  from choose_type_without_prompts[OF h1 h2 h3, of 0] h1 h2 h3 show ?thesis by simp
qed

lemma update_room_status_ok:
  "fault s = None \<Longrightarrow>
   snd (update_room_status st rid s) =
     tick (s\<lparr>t_rooms := map (\<lambda>r. if r_id r = rid then r\<lparr>r_status := st\<rparr> else r) (t_rooms s)\<rparr>)"
  by (simp add: update_room_status_def)

text \<open>
  C10. Starting the game with an empty catalog: the room has been set to \<open>active\<close>
  when the error \<^verbatim>\<open>No prompts available\<close> is raised, no game state row is
  inserted, and the page does not navigate.
\<close>

theorem startGame_empty_catalog:
  assumes "lb_roomId l = Some rid"
    and "fault s = None"
    and "t_prompts s = []"
  shows "lb_error (fst (startGame rnd l s)) = ''No prompts available''
       \<and> lb_location (fst (startGame rnd l s)) = lb_location l
       \<and> t_rooms (snd (startGame rnd l s))
           = map (\<lambda>r. if r_id r = rid then r\<lparr>r_status := Active\<rparr> else r) (t_rooms s)
       \<and> t_game_state (snd (startGame rnd l s)) = t_game_state s"
  using assms
  by (simp add: startGame_def Let_def update_room_status_ok select_prompts_limit_def
      db_select_def tick_def)

theorem startGame_empty_catalog_witness:
  "lb_roomId lobby1 = Some 1
   \<and> fault lobby_store = None
   \<and> t_prompts lobby_store = []
   \<and> map r_status (t_rooms lobby_store) = [Waiting]
   \<and> lb_error (fst (startGame 0 lobby1 lobby_store)) = ''No prompts available''
   \<and> map r_status (t_rooms (snd (startGame 0 lobby1 lobby_store))) = [Active]
   \<and> t_game_state (snd (startGame 0 lobby1 lobby_store)) = []"
proof -
  have h1: "lb_roomId lobby1 = Some 1" by (simp add: lobby1_def)
  have h2: "fault lobby_store = None" by (simp add: lobby_store_def)
  have h3: "t_prompts lobby_store = []" by (simp add: lobby_store_def)
  have r: "t_rooms lobby_store = [\<lparr>r_id = 1, r_code = ascii ''482913'', r_created_at = 0, r_status = Waiting\<rparr>]"
    and g: "t_game_state lobby_store = []"
    by (simp_all add: lobby_store_def)
  from startGame_empty_catalog[OF h1 h2 h3, of 0] h1 h2 h3 show ?thesis by (simp add: r g)
qed

section \<open>Joining a room\<close>

lemma select_room_by_code_none:
  "fault s = None \<Longrightarrow> filter (\<lambda>r. r_code r = code) (t_rooms s) = [] \<Longrightarrow>
   select_room_by_code code s = Inl PGRST116"
  by (simp add: select_room_by_code_def db_select_def)

lemma select_room_by_code_one:
  "fault s = None \<Longrightarrow> filter (\<lambda>r. r_code r = code) (t_rooms s) = [room] \<Longrightarrow>
   select_room_by_code code s = Inr room"
  by (simp add: select_room_by_code_def db_select_def)

lemma join_empty:
  assumes "trim (jn_nickname j) = [] \<or> trim (jn_roomCode j) = []"
  shows "handleJoinRoom j b s = (j\<lparr>jn_error := ''Please enter both nickname and room code''\<rparr>, b, s)"
  using assms by (simp add: handleJoinRoom_def)

lemma join_not_found:
  assumes "trim (jn_nickname j) \<noteq> []" "trim (jn_roomCode j) \<noteq> []" "fault s = None"
    "filter (\<lambda>r. r_code r = jn_roomCode j) (t_rooms s) = []"
  shows "handleJoinRoom j b s =
     (j\<lparr>jn_loading := False, jn_error := ''Room not found. Please check the room code.''\<rparr>, b, s)"
  using assms
  by (simp add: handleJoinRoom_def Let_def select_room_by_code_none PGRST116_def join_failed_def)

lemma join_started:
  assumes "trim (jn_nickname j) \<noteq> []" "trim (jn_roomCode j) \<noteq> []" "fault s = None"
    "filter (\<lambda>r. r_code r = jn_roomCode j) (t_rooms s) = [room]" "r_status room = Active"
  shows "handleJoinRoom j b s =
     (j\<lparr>jn_loading := False, jn_error := ''Game has already started''\<rparr>, b, s)"
  using assms
  by (simp add: handleJoinRoom_def Let_def select_room_by_code_one join_failed_def)

text \<open>
  C9. \<open>handleJoinRoom\<close> rejects with three different messages and inserts no player
  (the store is returned as it was): a nickname or room code that is empty after trimming,
  a code no room has, and a room whose status is \<open>active\<close>.
\<close>

theorem join_rejections:
  "(trim (jn_nickname j) = [] \<or> trim (jn_roomCode j) = [] \<longrightarrow>
      handleJoinRoom j b s =
        (j\<lparr>jn_error := ''Please enter both nickname and room code''\<rparr>, b, s))
   \<and> (trim (jn_nickname j) \<noteq> [] \<and> trim (jn_roomCode j) \<noteq> [] \<and> fault s = None
        \<and> filter (\<lambda>r. r_code r = jn_roomCode j) (t_rooms s) = [] \<longrightarrow>
      handleJoinRoom j b s =
        (j\<lparr>jn_loading := False,
           jn_error := ''Room not found. Please check the room code.''\<rparr>, b, s))
   \<and> (trim (jn_nickname j) \<noteq> [] \<and> trim (jn_roomCode j) \<noteq> [] \<and> fault s = None
        \<and> filter (\<lambda>r. r_code r = jn_roomCode j) (t_rooms s) = [room] \<and> r_status room = Active \<longrightarrow>
      handleJoinRoom j b s =
        (j\<lparr>jn_loading := False, jn_error := ''Game has already started''\<rparr>, b, s))
   \<and> distinct [''Please enter both nickname and room code'',
                ''Room not found. Please check the room code.'',
                ''Game has already started'']"
  using join_empty[of j b s] join_not_found[of j s b] join_started[of j s room b]
  by simp

theorem join_rejections_witness:
  "trim (jn_nickname (join1\<lparr>jn_nickname := [0xA0]\<rparr>)) = []
   \<and> handleJoinRoom (join1\<lparr>jn_nickname := [0xA0]\<rparr>) browser0 lobby_store
       = (join1\<lparr>jn_nickname := [0xA0],
                 jn_error := ''Please enter both nickname and room code''\<rparr>, browser0, lobby_store)
   \<and> trim (jn_nickname (join1\<lparr>jn_roomCode := ascii ''000000''\<rparr>)) \<noteq> []
   \<and> trim (jn_roomCode (join1\<lparr>jn_roomCode := ascii ''000000''\<rparr>)) \<noteq> []
   \<and> fault lobby_store = None
   \<and> filter (\<lambda>r. r_code r = jn_roomCode (join1\<lparr>jn_roomCode := ascii ''000000''\<rparr>)) (t_rooms lobby_store) = []
   \<and> handleJoinRoom (join1\<lparr>jn_roomCode := ascii ''000000''\<rparr>) browser0 lobby_store
       = (join1\<lparr>jn_roomCode := ascii ''000000'',
                 jn_error := ''Room not found. Please check the room code.''\<rparr>, browser0, lobby_store)
   \<and> trim (jn_nickname join1) \<noteq> []
   \<and> trim (jn_roomCode join1) \<noteq> []
   \<and> fault store1 = None
   \<and> map r_status (filter (\<lambda>r. r_code r = jn_roomCode join1) (t_rooms store1)) = [Active]
   \<and> handleJoinRoom join1 browser0 store1
       = (join1\<lparr>jn_error := ''Game has already started''\<rparr>, browser0, store1)"
proof -
  let ?blank = "join1\<lparr>jn_nickname := [0xA0]\<rparr>"
  let ?wrong = "join1\<lparr>jn_roomCode := ascii ''000000''\<rparr>"
  let ?room = "\<lparr>r_id = 1, r_code = ascii ''482913'', r_created_at = 0, r_status = Active\<rparr>"
  have a1: "trim (jn_nickname ?blank) = [] \<or> trim (jn_roomCode ?blank) = []"
    by (simp add: join1_def trim_def is_space_def ascii_def)
  have b1: "trim (jn_nickname ?wrong) \<noteq> []" and b2: "trim (jn_roomCode ?wrong) \<noteq> []"
    by (simp_all add: join1_def trim_def is_space_def ascii_def)
  have b3: "fault lobby_store = None" by (simp add: lobby_store_def)
  have b4: "filter (\<lambda>r. r_code r = jn_roomCode ?wrong) (t_rooms lobby_store) = []"
    by (simp add: join1_def lobby_store_def ascii_def)
  have c1: "trim (jn_nickname join1) \<noteq> []" and c2: "trim (jn_roomCode join1) \<noteq> []"
    by (simp_all add: join1_def trim_def is_space_def ascii_def)
  have c3: "fault store1 = None" by (simp add: store1_def)
  have c4: "filter (\<lambda>r. r_code r = jn_roomCode join1) (t_rooms store1) = [?room]"
    by (simp add: join1_def store1_def)
  have c5: "r_status ?room = Active" by simp
  have l: "jn_loading join1 = False" by (simp add: join1_def)
  from join_rejections[where j = ?blank and b = browser0 and s = lobby_store] a1
  have A: "handleJoinRoom ?blank browser0 lobby_store
       = (?blank\<lparr>jn_error := ''Please enter both nickname and room code''\<rparr>, browser0, lobby_store)"
    by blast
  from join_rejections[where j = ?wrong and b = browser0 and s = lobby_store] b1 b2 b3 b4
  have B: "handleJoinRoom ?wrong browser0 lobby_store
       = (?wrong\<lparr>jn_loading := False,
                  jn_error := ''Room not found. Please check the room code.''\<rparr>, browser0, lobby_store)"
    by blast
  from join_rejections[where j = join1 and b = browser0 and s = store1 and room = ?room] c1 c2 c3 c4 c5
  have C: "handleJoinRoom join1 browser0 store1
       = (join1\<lparr>jn_loading := False, jn_error := ''Game has already started''\<rparr>, browser0, store1)"
    by blast
  have l1: "join1\<lparr>jn_loading := False\<rparr> = join1" by (simp add: join1_def)
  have l2: "?wrong\<lparr>jn_loading := False\<rparr> = ?wrong" by (simp add: join1_def)
  from a1 have a1': "trim (jn_nickname ?blank) = []" by (simp add: join1_def trim_def is_space_def ascii_def)
  show ?thesis
    using a1' A b1 b2 b3 b4 B c1 c2 c3 c4 C
    by (simp add: l1 l2 join1_def)
qed

section \<open>The response log\<close>

lemma sort_key_snoc_least:
  assumes "\<forall>y \<in> set xs. k x < k y"
  shows "sort_key k (xs @ [x]) = x # sort_key k xs"
  using assms
proof (induction xs)
  case Nil then show ?case by simp
next
  case (Cons a xs)
  then have "sort_key k (xs @ [x]) = x # sort_key k xs" and "\<not> k a \<le> k x" by auto
  then show ?case by simp
qed

lemma er_row_embed_row [simp]: "er_row (embed_row s r) = r"
  by (simp add: embed_row_def)

lemma select_responses_ok:
  "fault s = None \<Longrightarrow>
   select_responses rid s =
     Inr (map (embed_row s) (sort_key (\<lambda>r. - int (rs_created_at r))
                           (filter (\<lambda>r. rs_room_id r = rid) (t_responses s))))"
  by (simp add: select_responses_def db_select_def)

lemma fetchResponses_ok:
  "gp_roomId c = Some rid \<Longrightarrow> fault s = None \<Longrightarrow>
   gp_responses (fetchResponses c s) =
     map (embed_row s) (sort_key (\<lambda>r. - int (rs_created_at r))
                      (filter (\<lambda>r. rs_room_id r = rid) (t_responses s)))"
  by (simp add: fetchResponses_def select_responses_ok)

lemma fetchResponses_descending:
  assumes "gp_roomId c = Some rid" "fault s = None"
  shows "sorted_wrt (\<lambda>a b. rs_created_at (er_row b) \<le> rs_created_at (er_row a))
           (gp_responses (fetchResponses c s))"
proof -
  let ?k = "\<lambda>r. - int (rs_created_at r)"
  let ?rs = "sort_key ?k (filter (\<lambda>r. rs_room_id r = rid) (t_responses s))"
  have "sorted (map ?k ?rs)" by (rule sorted_sort_key)
  then have "sorted_wrt (\<lambda>a b. rs_created_at b \<le> rs_created_at a) ?rs"
    by (simp add: sorted_map)
  then show ?thesis
    by (simp add: fetchResponses_ok[OF assms] sorted_wrt_map)
qed

lemma fetchResponses_rows:
  assumes "gp_roomId c = Some rid" "fault s = None"
  shows "set (map er_row (gp_responses (fetchResponses c s)))
           = set (filter (\<lambda>r. rs_room_id r = rid) (t_responses s))"
  by (simp add: fetchResponses_ok[OF assms] o_def)

lemma handleSubmitResponse_ok:
  assumes "gp_roomId c = Some rid" "gp_playerId c = Some pid" "gp_currentPrompt c = Some pr"
    "fault s = None"
  shows "handleSubmitResponse c s =
     (c\<lparr>gp_hasResponded := True, gp_showConfetti := True\<rparr>,
      tick (s\<lparr>t_responses := t_responses s @
                 [\<lparr>rs_id = next_uuid s, rs_room_id = rid, rs_player_id = pid,
                   rs_prompt_id = pr_id pr, rs_response = trim (gp_response c),
                   rs_created_at = clock s\<rparr>],
               next_uuid := Suc (next_uuid s)\<rparr>))"
  using assms by (simp add: handleSubmitResponse_def insert_response_def Let_def)

lemma handleSubmitResponse_keeps_past:
  assumes "\<forall>r \<in> set (t_responses s). rs_created_at r < clock s"
  shows "\<forall>r \<in> set (t_responses (snd (handleSubmitResponse c s))).
           rs_created_at r < clock (snd (handleSubmitResponse c s))"
  using assms
  by (auto simp: handleSubmitResponse_def insert_response_def Let_def tick_def less_Suc_eq
      split: option.splits)

text \<open>
  C8. \<open>fetchResponses\<close> returns the responses of the room, latest first. After
  \<open>handleSubmitResponse\<close> the list it returns is the new response followed by the
  list it returned before. The rows already in the table were created before the
  store's current time; every insert keeps that so.
\<close>

theorem submitted_response_first:
  assumes "gp_roomId c = Some rid"
    and "gp_playerId c = Some pid"
    and "gp_currentPrompt c = Some pr"
    and "fault s = None"
    and "\<forall>r \<in> set (t_responses s). rs_created_at r < clock s"
  shows "gp_responses (fetchResponses (fst (handleSubmitResponse c s)) (snd (handleSubmitResponse c s)))
           = embed_row s \<lparr>rs_id = next_uuid s, rs_room_id = rid, rs_player_id = pid,
                          rs_prompt_id = pr_id pr, rs_response = trim (gp_response c),
                          rs_created_at = clock s\<rparr>
             # gp_responses (fetchResponses c s)
       \<and> sorted_wrt (\<lambda>a b. rs_created_at (er_row b) \<le> rs_created_at (er_row a))
            (gp_responses (fetchResponses (fst (handleSubmitResponse c s))
                                          (snd (handleSubmitResponse c s))))
       \<and> set (map er_row (gp_responses (fetchResponses (fst (handleSubmitResponse c s))
                                                         (snd (handleSubmitResponse c s)))))
           = set (filter (\<lambda>r. rs_room_id r = rid) (t_responses (snd (handleSubmitResponse c s))))"
proof -
  let ?new = "\<lparr>rs_id = next_uuid s, rs_room_id = rid, rs_player_id = pid,
                rs_prompt_id = pr_id pr, rs_response = trim (gp_response c),
                rs_created_at = clock s\<rparr>"
  let ?k = "\<lambda>r. - int (rs_created_at r)"
  let ?old = "filter (\<lambda>r. rs_room_id r = rid) (t_responses s)"
  let ?c' = "fst (handleSubmitResponse c s)"
  let ?s' = "snd (handleSubmitResponse c s)"
  note sub = handleSubmitResponse_ok[OF assms(1-4)]
  have room: "gp_roomId ?c' = Some rid" by (simp add: sub assms(1))
  have fault: "fault ?s' = None" by (simp add: sub tick_def assms(4))
  have rows: "filter (\<lambda>r. rs_room_id r = rid) (t_responses ?s') = ?old @ [?new]"
    by (simp add: sub tick_def)
  have emb: "embed_row ?s' = embed_row s"
    by (rule ext) (simp add: embed_row_def sub tick_def)
  from assms(5) have "\<forall>y \<in> set ?old. ?k ?new < ?k y" by simp
  then have "sort_key ?k (?old @ [?new]) = ?new # sort_key ?k ?old"
    by (rule sort_key_snoc_least)
  then have "gp_responses (fetchResponses ?c' ?s')
               = embed_row s ?new # gp_responses (fetchResponses c s)"
    by (simp add: fetchResponses_ok[OF room fault] fetchResponses_ok[OF assms(1) assms(4)] rows emb)
  moreover note fetchResponses_descending[OF room fault] fetchResponses_rows[OF room fault]
  ultimately show ?thesis by blast
qed

theorem submitted_response_first_witness:
  "gp_roomId page1 = Some 1
   \<and> gp_playerId page1 = Some 3
   \<and> gp_currentPrompt page1 = Some truth1
   \<and> fault store2 = None
   \<and> map rs_created_at (t_responses store2) = [4]
   \<and> clock store2 = 5
   \<and> map er_row (gp_responses (fetchResponses page1 store2)) = [response1]
   \<and> map er_row (gp_responses (fetchResponses (fst (handleSubmitResponse page1 store2))
                                               (snd (handleSubmitResponse page1 store2))))
       = [\<lparr>rs_id = 8, rs_room_id = 1, rs_player_id = 3, rs_prompt_id = 4,
           rs_response = ascii ''I once sang karaoke'', rs_created_at = 5\<rparr>, response1]"
proof -
  have h1: "gp_roomId page1 = Some 1" and h2: "gp_playerId page1 = Some 3"
    and h3: "gp_currentPrompt page1 = Some truth1"
    by (simp_all add: page1_def)
  have h4: "fault store2 = None" by (simp add: store2_def store1_def)
  have rs: "t_responses store2 = [response1]" and ck: "clock store2 = 5"
    and nx: "next_uuid store2 = 8"
    by (simp_all add: store2_def)
  have h5: "\<forall>r \<in> set (t_responses store2). rs_created_at r < clock store2"
    by (simp add: rs ck response1_def)
  have old: "map er_row (gp_responses (fetchResponses page1 store2)) = [response1]"
    by (simp add: fetchResponses_ok[OF h1 h4] rs response1_def)
  have body: "trim (gp_response page1) = ascii ''I once sang karaoke''"
    by (simp add: page1_def trim_def is_space_def ascii_def)
  have pid: "pr_id truth1 = 4" by (simp add: truth1_def)
  from submitted_response_first[OF h1 h2 h3 h4 h5]
  have "gp_responses (fetchResponses (fst (handleSubmitResponse page1 store2))
                                     (snd (handleSubmitResponse page1 store2)))
           = embed_row store2 \<lparr>rs_id = next_uuid store2, rs_room_id = 1, rs_player_id = 3,
                          rs_prompt_id = pr_id truth1, rs_response = trim (gp_response page1),
                          rs_created_at = clock store2\<rparr>
             # gp_responses (fetchResponses page1 store2)"
    by blast
  then have "map er_row (gp_responses (fetchResponses (fst (handleSubmitResponse page1 store2))
                                               (snd (handleSubmitResponse page1 store2))))
       = [\<lparr>rs_id = 8, rs_room_id = 1, rs_player_id = 3, rs_prompt_id = 4,
           rs_response = ascii ''I once sang karaoke'', rs_created_at = 5\<rparr>, response1]"
    by (simp add: old body pid ck nx)
  with h1 h2 h3 h4 old show ?thesis by (simp add: rs ck response1_def)
qed

section \<open>Starting the game\<close>

lemma random_index_bounds:
  assumes "0 \<le> rnd" "rnd < 1" "0 < n"
  shows "0 \<le> random_index rnd n \<and> random_index rnd n < int n"
proof -
  from assms have "0 \<le> rnd * real n" by simp
  moreover from assms have "rnd * real n < 1 * real n"
    by (intro mult_strict_right_mono) simp_all
  ultimately show ?thesis by (simp add: random_index_def floor_less_iff)
qed

lemma random_index_hit:
  assumes "i < n"
  shows "random_index (real i / real n) n = int i"
  using assms by (simp add: random_index_def)

lemma random_value_unit:
  assumes "i < n"
  shows "0 \<le> real i / real n \<and> real i / real n < 1"
  using assms by simp

lemma startGame_ok:
  assumes room: "lb_roomId l = Some rid"
    and fault: "fault s = None"
    and first: "lb_players l = fp # rest"
    and rnd: "0 \<le> rnd" "rnd < 1"
    and ne: "t_prompts s \<noteq> []"
  shows "nat (random_index rnd (length (take 100 (t_prompts s)))) < length (take 100 (t_prompts s))
       \<and> t_game_state (snd (startGame rnd l s)) =
           t_game_state s @
             [\<lparr>gs_id = next_uuid s, gs_room_id = rid, gs_current_player_id = pl_id fp,
               gs_current_prompt_id =
                 Some (pr_id (take 100 (t_prompts s)
                               ! nat (random_index rnd (length (take 100 (t_prompts s)))))),
               gs_status = Active, gs_created_at = Suc (clock s),
               gs_updated_at = Suc (clock s)\<rparr>]"
proof -
  let ?ps = "take 100 (t_prompts s)"
  from ne have n: "0 < length ?ps" by simp
  from random_index_bounds[OF rnd n]
  have b: "0 \<le> random_index rnd (length ?ps)" "random_index rnd (length ?ps) < int (length ?ps)"
    by simp_all
  have "t_game_state (snd (startGame rnd l s)) =
           t_game_state s @
             [\<lparr>gs_id = next_uuid s, gs_room_id = rid, gs_current_player_id = pl_id fp,
               gs_current_prompt_id = Some (pr_id (?ps ! nat (random_index rnd (length ?ps)))),
               gs_status = Active, gs_created_at = Suc (clock s),
               gs_updated_at = Suc (clock s)\<rparr>]"
    using room fault first ne b
    by (simp add: startGame_def Let_def update_room_status_ok select_prompts_limit_def
        db_select_def tick_def js_index_def insert_game_state_def)
  moreover from b have "nat (random_index rnd (length ?ps)) < length ?ps" by linarith
  ultimately show ?thesis by blast
qed

lemma length_big_catalog: "length big_catalog = 101"
  by (simp add: big_catalog_def)

lemma nth_big_catalog: "i < 101 \<Longrightarrow> pr_id (big_catalog ! i) = 100 + i"
  by (simp add: big_catalog_def del: upt_Suc)

lemma big_store_facts:
  "lb_roomId lobby1 = Some 1" "fault big_store = None" "lb_players lobby1 = bob # [ann]"
  "t_prompts big_store = big_catalog" "t_game_state big_store = []"
  by (simp_all add: lobby1_def big_store_def lobby_store_def)

text \<open>
  C6, as amended. \<open>startGame\<close> reads the catalog with \<^verbatim>\<open>limit(100)\<close>
  and draws the opening prompt from the rows it got. Every prompt among the first hundred
  rows is the opening prompt for some value of \<^verbatim>\<open>Math.random()\<close>, every
  value of \<^verbatim>\<open>Math.random()\<close> gives a prompt among them, and they are the whole
  catalog when it has at most a hundred prompts.
\<close>

theorem opening_prompt_first_hundred:
  assumes "lb_roomId l = Some rid"
    and "fault s = None"
    and "lb_players l = fp # rest"
  shows "(\<forall>p \<in> set (take 100 (t_prompts s)).
            \<exists>rnd. 0 \<le> rnd \<and> rnd < 1
              \<and> map gs_current_prompt_id (t_game_state (snd (startGame rnd l s)))
                  = map gs_current_prompt_id (t_game_state s) @ [Some (pr_id p)])
       \<and> (\<forall>rnd. 0 \<le> rnd \<and> rnd < 1 \<and> t_prompts s \<noteq> [] \<longrightarrow>
            (\<exists>p \<in> set (take 100 (t_prompts s)).
               map gs_current_prompt_id (t_game_state (snd (startGame rnd l s)))
                 = map gs_current_prompt_id (t_game_state s) @ [Some (pr_id p)]))
       \<and> (length (t_prompts s) \<le> 100 \<longrightarrow> take 100 (t_prompts s) = t_prompts s)"
proof (intro conjI ballI allI impI)
  let ?ps = "take 100 (t_prompts s)"
  fix p assume "p \<in> set ?ps"
  then obtain i where i: "i < length ?ps" and p: "?ps ! i = p"
    by (auto simp: in_set_conv_nth)
  then have ne: "t_prompts s \<noteq> []" by auto
  let ?rnd = "real i / real (length ?ps)"
  from random_value_unit[OF i] have r: "0 \<le> ?rnd" "?rnd < 1" by blast+
  from startGame_ok[OF assms r ne]
  have "t_game_state (snd (startGame ?rnd l s)) =
           t_game_state s @
             [\<lparr>gs_id = next_uuid s, gs_room_id = rid, gs_current_player_id = pl_id fp,
               gs_current_prompt_id = Some (pr_id (?ps ! nat (random_index ?rnd (length ?ps)))),
               gs_status = Active, gs_created_at = Suc (clock s),
               gs_updated_at = Suc (clock s)\<rparr>]"
    by blast
  then have "map gs_current_prompt_id (t_game_state (snd (startGame ?rnd l s)))
          = map gs_current_prompt_id (t_game_state s) @ [Some (pr_id p)]"
    by (simp add: random_index_hit[OF i] p del: length_take)
  with r show "\<exists>rnd. 0 \<le> rnd \<and> rnd < 1
              \<and> map gs_current_prompt_id (t_game_state (snd (startGame rnd l s)))
                  = map gs_current_prompt_id (t_game_state s) @ [Some (pr_id p)]"
    by blast
next
  let ?ps = "take 100 (t_prompts s)"
  fix rnd :: real assume a: "0 \<le> rnd \<and> rnd < 1 \<and> t_prompts s \<noteq> []"
  then have r: "0 \<le> rnd" "rnd < 1" and ne: "t_prompts s \<noteq> []" by simp_all
  let ?k = "nat (random_index rnd (length ?ps))"
  from startGame_ok[OF assms r ne]
  have k: "?k < length ?ps"
    and g: "map gs_current_prompt_id (t_game_state (snd (startGame rnd l s)))
          = map gs_current_prompt_id (t_game_state s) @ [Some (pr_id (?ps ! ?k))]"
    by (simp_all del: length_take)
  from k have "?ps ! ?k \<in> set ?ps" by (rule nth_mem)
  with g show "\<exists>p \<in> set ?ps.
               map gs_current_prompt_id (t_game_state (snd (startGame rnd l s)))
                 = map gs_current_prompt_id (t_game_state s) @ [Some (pr_id p)]"
    by blast
next
  assume "length (t_prompts s) \<le> 100"
  then show "take 100 (t_prompts s) = t_prompts s" by simp
qed

theorem opening_prompt_first_hundred_witness:
  "lb_roomId lobby1 = Some 1
   \<and> fault big_store = None
   \<and> lb_players lobby1 = bob # [ann]
   \<and> big_catalog ! 99 \<in> set (take 100 (t_prompts big_store))
   \<and> pr_id (big_catalog ! 99) = 199
   \<and> (\<exists>rnd. 0 \<le> rnd \<and> rnd < 1
         \<and> map gs_current_prompt_id (t_game_state (snd (startGame rnd lobby1 big_store)))
             = [Some 199])
   \<and> t_prompts big_store \<noteq> []
   \<and> (\<exists>p \<in> set (take 100 (t_prompts big_store)).
         map gs_current_prompt_id (t_game_state (snd (startGame 0 lobby1 big_store)))
           = [Some (pr_id p)])"
proof -
  have m: "big_catalog ! 99 \<in> set (take 100 (t_prompts big_store))"
  proof -
    have "take 100 big_catalog ! 99 \<in> set (take 100 big_catalog)"
      by (rule nth_mem) (simp add: length_big_catalog)
    then show ?thesis by (simp add: big_store_facts)
  qed
  have i: "pr_id (big_catalog ! 99) = 199" using nth_big_catalog[of 99] by simp
  from opening_prompt_first_hundred[OF big_store_facts(1-3)] m
  have "\<exists>rnd. 0 \<le> rnd \<and> rnd < 1
         \<and> map gs_current_prompt_id (t_game_state (snd (startGame rnd lobby1 big_store)))
             = map gs_current_prompt_id (t_game_state big_store) @ [Some (pr_id (big_catalog ! 99))]"
    by blast
  then have "\<exists>rnd. 0 \<le> rnd \<and> rnd < 1
         \<and> map gs_current_prompt_id (t_game_state (snd (startGame rnd lobby1 big_store)))
             = [Some 199]"
    by (simp add: big_store_facts i)
  moreover have ne: "t_prompts big_store \<noteq> []"
    using length_big_catalog by (auto simp: big_store_facts)
  moreover from opening_prompt_first_hundred[OF big_store_facts(1-3)] ne
  have "\<exists>p \<in> set (take 100 (t_prompts big_store)).
         map gs_current_prompt_id (t_game_state (snd (startGame 0 lobby1 big_store)))
           = map gs_current_prompt_id (t_game_state big_store) @ [Some (pr_id p)]"
    by simp
  then have "\<exists>p \<in> set (take 100 (t_prompts big_store)).
         map gs_current_prompt_id (t_game_state (snd (startGame 0 lobby1 big_store)))
           = [Some (pr_id p)]"
    by (simp add: big_store_facts(5))
  ultimately show ?thesis using big_store_facts(1-3) m i by blast
qed

text \<open>
  C6, as stated, fails on a catalog of 101 prompts: its last prompt is in the catalog and
  is the opening prompt for no value of \<^verbatim>\<open>Math.random()\<close>.
\<close>

theorem opening_prompt_counterexample:
  "big_catalog ! 100 \<in> set (t_prompts big_store)
   \<and> pr_id (big_catalog ! 100) = 200
   \<and> \<not> (\<exists>rnd. 0 \<le> rnd \<and> rnd < 1
          \<and> Some 200 \<in> set (map gs_current_prompt_id
                                (t_game_state (snd (startGame rnd lobby1 big_store)))))"
proof -
  let ?ps = "take 100 (t_prompts big_store)"
  have a: "big_catalog ! 100 \<in> set (t_prompts big_store)"
    unfolding big_store_facts by (rule nth_mem) (simp add: length_big_catalog)
  have b: "pr_id (big_catalog ! 100) = 200" using nth_big_catalog[of 100] by simp
  have ne: "t_prompts big_store \<noteq> []"
    using length_big_catalog by (auto simp: big_store_facts)
  have c: "Some 200 \<notin> set (map gs_current_prompt_id
                                (t_game_state (snd (startGame rnd lobby1 big_store))))"
    if r: "0 \<le> rnd" "rnd < 1" for rnd
  proof -
    let ?k = "nat (random_index rnd (length ?ps))"
    from startGame_ok[OF big_store_facts(1-3) r ne]
    have k: "?k < length ?ps"
      and g: "map gs_current_prompt_id (t_game_state (snd (startGame rnd lobby1 big_store)))
                = [Some (pr_id (?ps ! ?k))]"
      by (simp_all add: big_store_facts(5) del: length_take)
    from k have k100: "?k < 100" by simp
    then have "pr_id (?ps ! ?k) = 100 + ?k"
      using nth_big_catalog[of ?k] by (simp add: big_store_facts(4))
    with k100 have "pr_id (?ps ! ?k) \<noteq> 200" by simp
    with g show ?thesis by simp
  qed
  from a b c show ?thesis by blast
qed

section \<open>From creating the room to the first turn\<close>

lemma generateRoomCode_0: "generateRoomCode 0 = ascii ''100000''"
  by (simp add: generateRoomCode_def toString.simps digit_def ascii_def)

lemma room_path: "ascii ''/room/'' @ ascii ''100000'' = ascii ''/room/100000''"
  by (simp add: ascii_def)

lemma ann_creates_eq:
  "ann_creates =
    (\<lparr>cp_nickname = ascii ''Ann'', cp_loading = False, cp_error = []\<rparr>,
     \<lparr>b_playerId = Some 11, b_roomId = Some 10, b_nickname = None,
      b_roomCode = Some (ascii ''100000''), b_location = ascii ''/room/100000''\<rparr>,
     \<lparr>t_rooms = [\<lparr>r_id = 10, r_code = ascii ''100000'', r_created_at = 1, r_status = Waiting\<rparr>],
      t_players = [\<lparr>pl_id = 11, pl_nickname = ascii ''Ann'', pl_room_id = 10, pl_is_host = True,
                    pl_turn_order = 1, pl_created_at = 2\<rparr>],
      t_prompts = [truth1, truth2], t_game_state = [], t_responses = [],
      clock = 3, next_uuid = 12, fault = None\<rparr>)"
  by (simp add: ann_creates_def handleCreateRoom_def generateRoomCode_0 Let_def
      insert_room_def insert_player_def empty_store_def browser0_def tick_def room_path)

lemma bob_joins_store:
  "snd (snd bob_joins) =
     \<lparr>t_rooms = [\<lparr>r_id = 10, r_code = ascii ''100000'', r_created_at = 1, r_status = Waiting\<rparr>],
      t_players = [\<lparr>pl_id = 11, pl_nickname = ascii ''Ann'', pl_room_id = 10, pl_is_host = True,
                    pl_turn_order = 1, pl_created_at = 2\<rparr>,
                   \<lparr>pl_id = 12, pl_nickname = ascii ''Bob'', pl_room_id = 10, pl_is_host = False,
                    pl_turn_order = 0, pl_created_at = 3\<rparr>],
      t_prompts = [truth1, truth2], t_game_state = [], t_responses = [],
      clock = 4, next_uuid = 13, fault = None\<rparr>"
  by (simp add: bob_joins_def ann_creates_eq handleJoinRoom_def Let_def trim_def is_space_def ascii_def
      select_room_by_code_def db_select_def insert_player_def tick_def)

lemma order_by_turn_order_pair:
  "pl_turn_order b < pl_turn_order a \<Longrightarrow> order_by_turn_order scan [a, b] = [b, a]"
  by (simp add: order_by_turn_order_def)

lemma ann_lobby_players:
  "lb_roomId (ann_lobby scan) = Some 10 \<and>
   lb_players (ann_lobby scan) =
     [\<lparr>pl_id = 12, pl_nickname = ascii ''Bob'', pl_room_id = 10, pl_is_host = False,
       pl_turn_order = 0, pl_created_at = 3\<rparr>,
      \<lparr>pl_id = 11, pl_nickname = ascii ''Ann'', pl_room_id = 10, pl_is_host = True,
       pl_turn_order = 1, pl_created_at = 2\<rparr>]"
  by (simp add: ann_lobby_def ann_creates_eq bob_joins_store lobby_fetchPlayers_def
      select_players_def db_select_def order_by_turn_order_pair)

text \<open>
  C3. Ann creates a room and is registered as host with \<open>turn_order = 1\<close>; Bob joins
  and is registered with \<open>turn_order = 0\<close>. The lobby fetches the roster in ascending
  \<open>turn_order\<close>, which puts Bob before Ann, and \<open>startGame\<close> writes the first
  player of that roster: the current player of the new game is Bob, the joiner, and not
  the host.
\<close>

theorem first_player_is_the_joiner:
  "map (\<lambda>p. (pl_nickname p, pl_is_host p, pl_turn_order p)) (lb_players (ann_lobby scan))
     = [(ascii ''Bob'', False, 0), (ascii ''Ann'', True, 1)]
   \<and> map gs_current_player_id (t_game_state (snd (ann_starts scan)))
       = map pl_id (take 1 (lb_players (ann_lobby scan)))
   \<and> map gs_current_player_id (t_game_state (snd (ann_starts scan))) = [12]
   \<and> map pl_id (filter pl_is_host (t_players (snd (ann_starts scan)))) = [11]"
proof -
  have s: "t_game_state (snd (ann_starts scan)) =
     [\<lparr>gs_id = 13, gs_room_id = 10, gs_current_player_id = 12,
       gs_current_prompt_id = Some 4, gs_status = Active, gs_created_at = 5,
       gs_updated_at = 5\<rparr>]"
    and p: "t_players (snd (ann_starts scan)) = t_players (snd (snd bob_joins))"
    by (simp_all add: ann_starts_def ann_lobby_players bob_joins_store startGame_def Let_def
        update_room_status_def select_prompts_limit_def db_select_def tick_def js_index_def
        random_index_def insert_game_state_def truth1_def)
  show ?thesis by (simp add: s p ann_lobby_players bob_joins_store)
qed

section \<open>Duplicate triggers\<close>

text \<open>
  \<open>handleNextTurn\<close> writes the key it computed from the page's own snapshot, whatever
  the store holds: run a second time from the same snapshot it writes the same key again.
\<close>

lemma handleNextTurn_same_snapshot:
  "map gs_current_player_id (t_game_state (snd (handleNextTurn c (snd (handleNextTurn c s)))))
     = map gs_current_player_id (t_game_state (snd (handleNextTurn c s)))"
proof (cases "\<exists>rid g. gp_roomId c = Some rid \<and> gp_gameState c = Some g \<and> gp_players c \<noteq> []
                \<and> fault s = None")
  case True
  then obtain rid g where h: "gp_roomId c = Some rid" "gp_gameState c = Some g"
    "gp_players c \<noteq> []" "fault s = None"
    by blast
  note one = handleNextTurn_ok[OF h]
  have f: "fault (snd (handleNextTurn c s)) = None" by (simp add: one tick_def h(4))
  note two = handleNextTurn_ok[OF h(1-3) f]
  show ?thesis
    by (subst two) (simp add: one tick_def apply_gs_patch_def o_def)
next
  case False
  then have "snd (handleNextTurn c s) = s"
    by (auto simp: handleNextTurn_def update_game_state_def split: option.splits)
  then show ?thesis by simp
qed

lemma successor_differs:
  assumes "distinct (map pl_id ps)" "i < length ps" "2 \<le> length ps"
  shows "pl_id (ps ! (Suc i mod length ps)) \<noteq> pl_id (ps ! i)"
proof -
  have lt: "Suc i mod length ps < length ps" using assms(2) by (cases ps) simp_all
  have ne: "Suc i mod length ps \<noteq> i"
  proof (cases "Suc i < length ps")
    case True then show ?thesis by simp
  next
    case False
    with assms(2) have "Suc i = length ps" by simp
    then have "Suc i mod length ps = 0" by simp
    moreover from \<open>Suc i = length ps\<close> assms(3) have "i \<noteq> 0" by simp
    ultimately show ?thesis by simp
  qed
  from assms(1) lt assms(2) ne have "map pl_id ps ! (Suc i mod length ps) \<noteq> map pl_id ps ! i"
    by (simp add: nth_eq_iff_index_eq del: nth_map)
  with lt assms(2) show ?thesis by simp
qed

lemma two_triggers:
  assumes r1: "gp_roomId c1 = Some rid" and r2: "gp_roomId c2 = Some rid"
    and g1: "gp_gameState c1 = Some g" and g2: "gp_gameState c2 = Some g"
    and same: "gp_players c2 = gp_players c1"
    and gs: "select_game_state rid s = Inr g"
    and key: "distinct (map pl_id (gp_players c1))"
    and i: "i < length (gp_players c1)"
    and cur: "gs_current_player_id g = pl_id (gp_players c1 ! i)"
  shows "current_player_id_of rid (snd (handleNextTurn c1 s))
           = Some (pl_id (gp_players c1 ! (Suc i mod length (gp_players c1))))
       \<and> current_player_id_of rid (snd (handleNextTurn c2 (snd (handleNextTurn c1 s))))
           = Some (pl_id (gp_players c1 ! (Suc i mod length (gp_players c1))))"
proof -
  let ?ps = "gp_players c1"
  let ?next = "pl_id (?ps ! (Suc i mod length ?ps))"
  let ?p = "\<lparr>p_current_player_id = Some ?next, p_current_prompt_id = None\<rparr>"
  from gs have fault: "fault s = None"
    and row: "filter (\<lambda>g. gs_room_id g = rid) (t_game_state s) = [g]"
    by (simp_all add: select_game_state_Inr)
  from i have ne1: "?ps \<noteq> []" by auto
  then have ne2: "gp_players c2 \<noteq> []" by (simp add: same)
  have idx: "nextPlayerIndex ?ps g = int (Suc i mod length ?ps)"
    using key i cur by (rule nextPlayerIndex_found)
  note one = handleNextTurn_ok[OF r1 g1 ne1 fault]
  let ?s1 = "snd (handleNextTurn c1 s)"
  have fault1: "fault ?s1 = None" by (simp add: one tick_def fault)
  have row1: "filter (\<lambda>g. gs_room_id g = rid) (t_game_state ?s1)
                = [apply_gs_patch ?p (clock s) g]"
    by (simp add: one tick_def idx filter_room_update row)
  note two = handleNextTurn_ok[OF r2 g2 ne2 fault1]
  let ?s2 = "snd (handleNextTurn c2 ?s1)"
  have row2: "filter (\<lambda>g. gs_room_id g = rid) (t_game_state ?s2)
                = [apply_gs_patch ?p (clock ?s1) (apply_gs_patch ?p (clock s) g)]"
    by (subst two) (simp add: tick_def same idx filter_room_update row1)
  have fault2: "fault ?s2 = None" by (subst two) (simp add: tick_def fault1)
  have "current_player_id_of rid ?s1 = Some ?next"
    by (simp add: current_player_id_of_def select_game_state_def db_select_def fault1 row1
        apply_gs_patch_def)
  moreover have "current_player_id_of rid ?s2 = Some ?next"
    by (simp add: current_player_id_of_def select_game_state_def db_select_def fault2 row2
        apply_gs_patch_def)
  ultimately show ?thesis by blast
qed

text \<open>
  C2. A trigger is one call of \<open>handleNextTurn\<close>: one update, with the key computed
  from the snapshot (room, game state, roster) its page held when the response was
  submitted. Duplicate triggers for one response carry the same snapshot, on one page or
  on two, and the store runs their updates one after the other, in either order. With two
  players or more the first update moves the current player to the successor, and the
  second writes the same key again: one transition, not two.
\<close>

theorem duplicate_triggers_one_transition:
  assumes "gp_roomId c1 = Some rid" and "gp_roomId c2 = Some rid"
    and "gp_gameState c1 = Some g" and "gp_gameState c2 = Some g"
    and "gp_players c2 = gp_players c1"
    and "select_game_state rid s = Inr g"
    and "distinct (map pl_id (gp_players c1))"
    and "i < length (gp_players c1)"
    and "gs_current_player_id g = pl_id (gp_players c1 ! i)"
    and "2 \<le> length (gp_players c1)"
  shows "current_player_id_of rid s = Some (pl_id (gp_players c1 ! i))
       \<and> pl_id (gp_players c1 ! ((i + 1) mod length (gp_players c1))) \<noteq> pl_id (gp_players c1 ! i)
       \<and> current_player_id_of rid (snd (handleNextTurn c1 s))
           = Some (pl_id (gp_players c1 ! ((i + 1) mod length (gp_players c1))))
       \<and> current_player_id_of rid (snd (handleNextTurn c2 (snd (handleNextTurn c1 s))))
           = Some (pl_id (gp_players c1 ! ((i + 1) mod length (gp_players c1))))
       \<and> current_player_id_of rid (snd (handleNextTurn c2 s))
           = Some (pl_id (gp_players c1 ! ((i + 1) mod length (gp_players c1))))
       \<and> current_player_id_of rid (snd (handleNextTurn c1 (snd (handleNextTurn c2 s))))
           = Some (pl_id (gp_players c1 ! ((i + 1) mod length (gp_players c1))))"
proof -
  have "current_player_id_of rid s = Some (pl_id (gp_players c1 ! i))"
    using assms(6) assms(9) by (simp add: current_player_id_of_def)
  moreover note successor_differs[OF assms(7) assms(8) assms(10)]
  moreover note two_triggers[OF assms(1) assms(2) assms(3) assms(4) assms(5) assms(6) assms(7)
      assms(8) assms(9)]
  moreover have "current_player_id_of rid (snd (handleNextTurn c2 s))
           = Some (pl_id (gp_players c1 ! (Suc i mod length (gp_players c1))))
       \<and> current_player_id_of rid (snd (handleNextTurn c1 (snd (handleNextTurn c2 s))))
           = Some (pl_id (gp_players c1 ! (Suc i mod length (gp_players c1))))"
    using two_triggers[OF assms(2) assms(1) assms(4) assms(3) assms(5)[symmetric] assms(6), of i]
      assms(5) assms(7) assms(8) assms(9)
    by simp
  ultimately show ?thesis by simp
qed

theorem duplicate_triggers_one_transition_witness:
  "gp_roomId page1 = Some 1 \<and> gp_roomId page2 = Some 1
   \<and> gp_gameState page1 = Some game1 \<and> gp_gameState page2 = Some game1
   \<and> gp_players page2 = gp_players page1
   \<and> select_game_state 1 store1 = Inr game1
   \<and> distinct (map pl_id (gp_players page1))
   \<and> 0 < length (gp_players page1)
   \<and> gs_current_player_id game1 = pl_id (gp_players page1 ! 0)
   \<and> 2 \<le> length (gp_players page1)
   \<and> current_player_id_of 1 store1 = Some (pl_id bob)
   \<and> pl_id ann \<noteq> pl_id bob
   \<and> current_player_id_of 1 (snd (handleNextTurn page1 store1)) = Some (pl_id ann)
   \<and> current_player_id_of 1 (snd (handleNextTurn page2 (snd (handleNextTurn page1 store1))))
       = Some (pl_id ann)
   \<and> current_player_id_of 1 (snd (handleNextTurn page1 (snd (handleNextTurn page2 store1))))
       = Some (pl_id ann)"
proof -
  have ps: "gp_players page1 = [bob, ann]" by (simp add: page1_def)
  have h1: "gp_roomId page1 = Some 1" and h2: "gp_roomId page2 = Some 1"
    and h3: "gp_gameState page1 = Some game1" and h4: "gp_gameState page2 = Some game1"
    and h5: "gp_players page2 = gp_players page1"
    by (simp_all add: page1_def page2_def)
  have h6: "select_game_state 1 store1 = Inr game1"
    by (simp add: select_game_state_def db_select_def store1_def game1_def)
  have h7: "distinct (map pl_id (gp_players page1))" by (simp add: ps ann_def bob_def)
  have h8: "0 < length (gp_players page1)" and h10: "2 \<le> length (gp_players page1)"
    by (simp_all add: ps)
  have h9: "gs_current_player_id game1 = pl_id (gp_players page1 ! 0)"
    by (simp add: ps game1_def bob_def)
  from duplicate_triggers_one_transition[OF h1 h2 h3 h4 h5 h6 h7 h8 h9 h10]
  have "current_player_id_of 1 store1 = Some (pl_id bob)
   \<and> pl_id ann \<noteq> pl_id bob
   \<and> current_player_id_of 1 (snd (handleNextTurn page1 store1)) = Some (pl_id ann)
   \<and> current_player_id_of 1 (snd (handleNextTurn page2 (snd (handleNextTurn page1 store1))))
       = Some (pl_id ann)
   \<and> current_player_id_of 1 (snd (handleNextTurn page1 (snd (handleNextTurn page2 store1))))
       = Some (pl_id ann)"
    by (simp add: ps)
  with h1 h2 h3 h4 h5 h6 h7 h8 h9 h10 show ?thesis by simp
qed

end
